theory Spec2Isabelle
  imports Main
begin

section \<open>TypeDoc's Application (src/lib/application.ts)\<close>

text \<open>
  The Application class drives one documentation run: it locates the entry points,
  asks TypeScript for the programs that contain them, refuses to go on when TypeScript
  reports errors, and hands the entry points to the Converter. This theory embeds
  \<open>getEntrypointsForPackages\<close>, \<open>getModuleName\<close> and the methods \<open>convert\<close>,
  \<open>convertAndWatch\<close>, \<open>expandInputFiles\<close> and \<open>getEntrypointsForPaths\<close> as HOL
  functions. A function returns, next to its result, the list of what it logged.
  TypeScript (\<open>ts\<close>), Node's \<open>fs\<close> and \<open>path\<close> modules and the parts of TypeDoc
  whose code lives in other files (the Converter, the package-manifest helpers,
  \<open>normalizePath\<close>, \<open>getCommonDirectory\<close>, \<open>createMinimatch\<close>) are parameters:
  fields of the record \<open>app\<close> below, or the file-system argument \<open>fs\<close>.
\<close>

subsection \<open>Data\<close>

type_synonym path = string
type_synonym diagnostic = string

text \<open>A \<open>ts.SourceFile\<close>; only its identity matters here.\<close>

datatype sourceFile = SourceFile string

text \<open>
  What \<open>FS.statSync\<close> and \<open>FS.readdirSync\<close> see below a path: a plain file, a
  directory with its entries in listing order, or something \<open>statSync\<close> throws on.
  The tree is finite, and every directory in it can be listed.
\<close>

datatype fsnode = FsFile | FsDir "(string \<times> fsnode) list" | FsNoStat

text \<open>
  The file system at one moment: the node found at a resolved path, \<open>None\<close> when
  \<open>FS.existsSync\<close> is false.
\<close>

type_synonym fileSystem = "path \<Rightarrow> fsnode option"

type_synonym compilerOptions = "(string \<times> string) list"

record parsedCommandLine =
  clOptions :: compilerOptions
  clFileNames :: "path list"
  clProjectReferences :: "path list"
  clErrors :: "diagnostic list"

text \<open>
  A \<open>ts.Program\<close>, by what the application asks of it: \<open>getRootFileNames()\<close>,
  \<open>getSourceFile(file)\<close> (the table \<open>sourceFiles\<close>),
  \<open>getResolvedProjectReferences()\<close> and \<open>ts.getPreEmitDiagnostics(program)\<close>.
\<close>

record program =
  rootFileNames :: "path list"
  sourceFiles :: "(path \<times> sourceFile) list"
  resolvedProjectReferences :: "parsedCommandLine option list option"
  preEmitDiagnostics :: "diagnostic list"

definition getSourceFile :: "program \<Rightarrow> path \<Rightarrow> sourceFile option" where
  "getSourceFile p file = map_of (sourceFiles p) file"

text \<open>
  What a method does besides returning: the calls on the Logger (\<open>verbose\<close>,
  \<open>warn\<close>, \<open>error\<close>, \<open>write\<close>, \<open>diagnostic\<close>, \<open>diagnostics\<close>,
  \<open>resetErrors\<close>), \<open>ts.sys.clearScreen\<close>, \<open>program.emit()\<close> and the watch
  host's original \<open>afterProgramCreate\<close>, in the order they happen.
\<close>

datatype effect =
    Verbose string
  | Warn string
  | Error string
  | Write string
  | Diagnostic diagnostic
  | Diagnostics "diagnostic list"
  | ResetErrors
  | ClearScreen
  | Emit program
  | OrigAfterProgramCreate program

record createProgramOptions =
  cpRootNames :: "path list"
  cpOptions :: compilerOptions
  cpProjectReferences :: "path list"

record documentationEntrypoint =
  displayName :: string
  epPath :: path
  epProgram :: program
  epSourceFile :: sourceFile

record packageManifest =
  manifestName :: string
  manifestFields :: "(string \<times> string) list"

text \<open>The three results of \<open>getTsEntryPointForPackage\<close>.\<close>

datatype tsEntryPoint = EntryUndefined | IgnorePackage | EntryPath path

text \<open>
  The application: its options, and the functions of TypeScript, of Node and of the
  rest of TypeDoc that its methods call. \<open>'p\<close> is the type of a ProjectReflection,
  and \<open>converterConvert\<close> is \<open>Converter.convert\<close>, called with the entry points.
\<close>

record 'p app =
  exclude :: "string list"
  entryPoints :: "path list"
  optPackages :: "path list"
  optEmit :: bool
  optPreserveWatchOutput :: bool
  optTsconfig :: path
  optCompilerOptions :: compilerOptions
  optFileNames :: "path list"
  optProjectReferences :: "path list"
  loggerIsConsole :: bool
  tsVersion :: string
  tsVersionMajorMinor :: string
  typeScriptPath :: path
  supportedVersionMajorMinor :: "string list"
  minimatch :: "string \<Rightarrow> path \<Rightarrow> bool"
  normalizePath :: "path \<Rightarrow> path"
  pathResolve :: "path \<Rightarrow> path"
  pathResolve2 :: "path \<Rightarrow> path \<Rightarrow> path"
  pathJoin :: "path \<Rightarrow> path \<Rightarrow> path"
  pathRelative :: "path \<Rightarrow> path \<Rightarrow> path"
  pathBasename :: "path \<Rightarrow> path"
  getCommonDirectory :: "path list \<Rightarrow> path"
  createProgram :: "createProgramOptions \<Rightarrow> program"
  findConfigFile :: "path \<Rightarrow> string option \<Rightarrow> path option"
  getParsedCommandLineOfConfigFile :: "path \<Rightarrow> parsedCommandLine option \<times> diagnostic list"
  expandPackages :: "path list \<Rightarrow> path list"
  loadPackageManifest :: "path \<Rightarrow> packageManifest option"
  getTsEntryPointForPackage :: "path \<Rightarrow> packageManifest \<Rightarrow> tsEntryPoint"
  converterConvert :: "documentationEntrypoint list \<Rightarrow> 'p"

subsection \<open>Strings\<close>

definition endsWith :: "string \<Rightarrow> string \<Rightarrow> bool" where
  "endsWith s suffix = (length suffix \<le> length s \<and> drop (length s - length suffix) s = suffix)"

text \<open>\<open>/\.tsx?$/\<close> and \<open>/\.[tj]sx?$/\<close>.\<close>

definition tsRegex :: "string \<Rightarrow> bool" where
  "tsRegex file = (endsWith file ''.ts'' \<or> endsWith file ''.tsx'')"

definition tjsRegex :: "string \<Rightarrow> bool" where
  "tjsRegex file = (tsRegex file \<or> endsWith file ''.js'' \<or> endsWith file ''.jsx'')"

text \<open>A string between double quotes.\<close>

definition quoted :: "string \<Rightarrow> string" where
  "quoted s = [CHR 0x22] @ s @ [CHR 0x22]"

text \<open>A compiler option that is switched on.\<close>

definition optionSet :: "compilerOptions \<Rightarrow> string \<Rightarrow> bool" where
  "optionSet opts key = (map_of opts key = Some ''true'')"

subsection \<open>expandInputFiles\<close>

text \<open>
  \<^verbatim>\<open>
  function isExcluded(fileName: string): boolean {
      return exclude.some((mm) => mm.match(fileName));
  }
  \<close>
\<close>

definition isExcluded :: "'p app \<Rightarrow> path \<Rightarrow> bool" where
  "isExcluded a fileName = list_ex (\<lambda>mm. minimatch a mm fileName) (exclude a)"

definition supportedFileRegex :: "'p app \<Rightarrow> string \<Rightarrow> bool" where
  "supportedFileRegex a file =
     (if optionSet (optCompilerOptions a) ''allowJs'' \<or> optionSet (optCompilerOptions a) ''checkJs''
      then tjsRegex file else tsRegex file)"

text \<open>
  The inner function \<open>add(file, entryPoint)\<close>. The node is what \<open>statSync\<close> and
  \<open>readdirSync\<close> find at \<open>file\<close>; the result is the list of paths pushed on
  \<open>files\<close>, in the order of the pushes.
\<close>

definition withTrailingSlash :: "path \<Rightarrow> path" where
  "withTrailingSlash file = (if \<not> endsWith file ''/'' then file @ ''/'' else file)"

fun add :: "'p app \<Rightarrow> path \<Rightarrow> bool \<Rightarrow> fsnode \<Rightarrow> path list" where
  "add a file entryPoint FsNoStat = []"
| "add a file entryPoint FsFile =
     (if \<not> entryPoint \<and> isExcluded a (normalizePath a file) then []
      else if supportedFileRegex a file then [normalizePath a file] else [])"
| "add a file entryPoint (FsDir entries) =
     (let file' = withTrailingSlash file in
      if \<not> entryPoint \<and> isExcluded a (normalizePath a file') then []
      else concat (map (\<lambda>(next, node). add a (pathJoin a file' next) False node) entries))"

text \<open>
  The loop \<open>inputFiles.forEach\<close> of \<open>expandInputFiles\<close>: the files found and the
  warnings logged.
\<close>

fun expandInputFiles :: "'p app \<Rightarrow> fileSystem \<Rightarrow> path list \<Rightarrow> path list \<times> effect list" where
  "expandInputFiles a fs [] = ([], [])"
| "expandInputFiles a fs (file # inputFiles) =
     (let resolved = pathResolve a file;
          (files, log) = expandInputFiles a fs inputFiles
      in case fs resolved of
           None \<Rightarrow> (files,
             Warn (''Provided entry point '' @ file @ '' does not exist and will not be included in the docs.'') # log)
         | Some node \<Rightarrow> (add a resolved True node @ files, log))"

subsection \<open>getModuleName\<close>

text \<open>
  \<open>s.replace(/(\/index)?(\.d)?\.[tj]sx?$/, "")\<close> removes one match. The match is
  anchored at the end of the string and starts as far left as it can: it is one
  extension (\<open>.ts\<close>, \<open>.tsx\<close>, \<open>.js\<close> or \<open>.jsx\<close>), with a \<open>.d\<close> right before
  it when there is one, and a \<open>/index\<close> right before that when there is one. A string
  without such an extension is left as it is.
\<close>

definition dropSuffix :: "string \<Rightarrow> string \<Rightarrow> string" where
  "dropSuffix s suffix = (if endsWith s suffix then take (length s - length suffix) s else s)"

text \<open>The one extension \<open>\.[tj]sx?$\<close> matches, if any.\<close>

definition matchedExtension :: "string \<Rightarrow> string option" where
  "matchedExtension s =
     (if endsWith s ''.tsx'' then Some ''.tsx''
      else if endsWith s ''.jsx'' then Some ''.jsx''
      else if endsWith s ''.ts'' then Some ''.ts''
      else if endsWith s ''.js'' then Some ''.js''
      else None)"

definition replaceModuleSuffix :: "string \<Rightarrow> string" where
  "replaceModuleSuffix s =
     (case matchedExtension s of
        None \<Rightarrow> s
      | Some extension \<Rightarrow> dropSuffix (dropSuffix (dropSuffix s extension) ''.d'') ''/index'')"

definition getModuleName :: "'p app \<Rightarrow> path \<Rightarrow> path \<Rightarrow> string" where
  "getModuleName a fileName baseDir =
     replaceModuleSuffix (normalizePath a (pathRelative a baseDir fileName))"

subsection \<open>getEntrypointsForPaths\<close>

text \<open>
  The programs the entry points are looked up in: the root program, and for a
  solution-style tsconfig (a root program without root files) one program per resolved
  project reference, skipping the references that did not resolve.
\<close>

definition rootProgram :: "'p app \<Rightarrow> program" where
  "rootProgram a = createProgram a
     \<lparr>cpRootNames = optFileNames a, cpOptions = optCompilerOptions a,
      cpProjectReferences = optProjectReferences a\<rparr>"

fun referencePrograms :: "'p app \<Rightarrow> parsedCommandLine option list \<Rightarrow> program list" where
  "referencePrograms a [] = []"
| "referencePrograms a (None # refs) = referencePrograms a refs"
| "referencePrograms a (Some ref # refs) =
     createProgram a \<lparr>cpRootNames = clFileNames ref, cpOptions = clOptions ref,
                      cpProjectReferences = clProjectReferences ref\<rparr>
     # referencePrograms a refs"

definition programsForPaths :: "'p app \<Rightarrow> program list" where
  "programsForPaths a =
     (if length (rootFileNames (rootProgram a)) = 0
      then rootProgram a #
           referencePrograms a (case resolvedProjectReferences (rootProgram a) of
                                  None \<Rightarrow> [] | Some refs \<Rightarrow> refs)
      else [rootProgram a])"

text \<open>
  The inner loop \<open>for (const program of programs)\<close>: the first program that has the
  file, with the source file found there.
\<close>

fun findProgram :: "program list \<Rightarrow> path \<Rightarrow> (program \<times> sourceFile) option" where
  "findProgram [] file = None"
| "findProgram (program # programs) file =
     (case getSourceFile program file of
        Some sourceFile \<Rightarrow> Some (program, sourceFile)
      | None \<Rightarrow> findProgram programs file)"

text \<open>The loop \<open>entryLoop\<close>: the entry points pushed and the warnings logged.\<close>

fun entryLoop :: "'p app \<Rightarrow> program list \<Rightarrow> path \<Rightarrow> path list
    \<Rightarrow> documentationEntrypoint list \<times> effect list" where
  "entryLoop a programs baseDir [] = ([], [])"
| "entryLoop a programs baseDir (file # files) =
     (let (entrypoints, log) = entryLoop a programs baseDir files
      in case findProgram programs file of
           Some (program, sourceFile) \<Rightarrow>
             (\<lparr>displayName = getModuleName a (pathResolve a file) baseDir, epPath = file,
               epProgram = program, epSourceFile = sourceFile\<rparr> # entrypoints, log)
         | None \<Rightarrow> (entrypoints, Warn (''Unable to locate entry point: '' @ file) # log))"

definition getEntrypointsForPaths :: "'p app \<Rightarrow> fileSystem \<Rightarrow> path list
    \<Rightarrow> documentationEntrypoint list \<times> effect list" where
  "getEntrypointsForPaths a fs entryPointPaths =
     (let programs = programsForPaths a;
          log0 = (if length (rootFileNames (rootProgram a)) = 0
                  then [Verbose ''tsconfig appears to be a solution style tsconfig - creating programs for references'']
                  else []);
          (inputFiles, log1) = expandInputFiles a fs entryPointPaths;
          baseDir = getCommonDirectory a inputFiles;
          (entrypoints, log2) = entryLoop a programs baseDir (map (normalizePath a) inputFiles)
      in (entrypoints, log0 @ log1 @ log2))"

subsection \<open>getEntrypointsForPackages\<close>

text \<open>
  The loop over the expanded packages. Every \<open>return;\<close> of the source is a result
  \<open>None\<close>; \<open>continue\<close> goes on with the next package. The second component of what
  \<open>getParsedCommandLineOfConfigFile\<close> returns is the list of diagnostics it hands
  to \<open>onUnRecoverableConfigFileDiagnostic\<close>: each is logged, and one is enough to
  set \<open>fatalError\<close>. The package-manifest helpers are given the logger; what they
  log themselves is not recorded.
\<close>

fun packagesLoop :: "'p app \<Rightarrow> path list \<Rightarrow> documentationEntrypoint list option \<times> effect list" where
  "packagesLoop a [] = (Some [], [])"
| "packagesLoop a (packagePath # packages) =
     (let packageJsonPath = pathResolve2 a packagePath ''package.json'' in
      case loadPackageManifest a packageJsonPath of
        None \<Rightarrow> (None, [Error (''Could not load package manifest '' @ packageJsonPath)])
      | Some packageJson \<Rightarrow>
          (case getTsEntryPointForPackage a packageJsonPath packageJson of
             EntryUndefined \<Rightarrow>
               (None, [Error (''Could not determine TS entry point for package '' @ packageJsonPath)])
           | IgnorePackage \<Rightarrow> packagesLoop a packages
           | EntryPath packageEntryPoint \<Rightarrow>
               (case findConfigFile a packageEntryPoint None of
                  None \<Rightarrow>
                    (None, [Error (''Could not determine tsconfig.json for source file '' @ packageEntryPoint
                                     @ '' (it must be on an ancestor path)'')])
                | Some tsconfigFile \<Rightarrow>
                    (let (parsed, unrecoverable) = getParsedCommandLineOfConfigFile a tsconfigFile;
                         fatalError = (unrecoverable \<noteq> [])
                     in case parsed of
                          None \<Rightarrow> (None, map Diagnostic unrecoverable)
                        | Some parsedCommandLine \<Rightarrow>
                            if fatalError
                            then (None, map Diagnostic unrecoverable @ [Diagnostics (clErrors parsedCommandLine)])
                            else
                              (let program = createProgram a
                                     \<lparr>cpRootNames = clFileNames parsedCommandLine,
                                      cpOptions = clOptions parsedCommandLine,
                                      cpProjectReferences = []\<rparr>
                               in case getSourceFile program packageEntryPoint of
                                    None \<Rightarrow>
                                      (None, [Diagnostics (clErrors parsedCommandLine),
                                              Error (''Entrypoint '' @ quoted packageEntryPoint
                                                @ '' does not appear to be built by the tsconfig found at ''
                                                @ quoted tsconfigFile)])
                                  | Some sourceFile \<Rightarrow>
                                      (let (results, log) = packagesLoop a packages
                                       in (map_option
                                             (\<lambda>rest. \<lparr>displayName = manifestName packageJson,
                                                      epPath = packageEntryPoint, epProgram = program,
                                                      epSourceFile = sourceFile\<rparr> # rest) results,
                                           Diagnostics (clErrors parsedCommandLine) # log)))))))"

definition getEntrypointsForPackages :: "'p app \<Rightarrow> path list
    \<Rightarrow> documentationEntrypoint list option \<times> effect list" where
  "getEntrypointsForPackages a packageGlobPaths = packagesLoop a (expandPackages a packageGlobPaths)"

subsection \<open>convert\<close>

text \<open>The decimal digits of a number, as a template literal prints it.\<close>

function showNat :: "nat \<Rightarrow> string" where
  "showNat n = (if n < 10 then [char_of (48 + n)]
                else showNat (n div 10) @ [char_of (48 + n mod 10)])"
  by pat_completeness auto
termination
  by (relation "measure id") auto

declare showNat.simps [simp del]

definition joinWith :: "string \<Rightarrow> string list \<Rightarrow> string" where
  "joinWith sep xs = (case xs of [] \<Rightarrow> [] | x # rest \<Rightarrow> x @ concat (map (\<lambda>y. sep @ y) rest))"

text \<open>The messages logged at the start of \<open>convert\<close> and of \<open>convertAndWatch\<close>.\<close>

definition versionLog :: "'p app \<Rightarrow> effect list" where
  "versionLog a =
     [Verbose (''Using TypeScript '' @ tsVersion a @ '' from '' @ typeScriptPath a)] @
     (if \<not> list_ex (\<lambda>version. version = tsVersionMajorMinor a) (supportedVersionMajorMinor a)
      then [Warn (''You are running with an unsupported TypeScript version! TypeDoc supports ''
                  @ joinWith '', '' (supportedVersionMajorMinor a))]
      else [])"

definition noCompilerOptionsWarning :: effect where
  "noCompilerOptionsWarning = Warn (''No compiler options set. This likely means that TypeDoc did not find your tsconfig.json. Generated documentation will probably be empty.'')"

text \<open>
  The entry points \<open>convert\<close> works on: those of the packages, or, when there are
  none, those of the paths in \<open>entryPoints\<close>; \<open>None\<close> when
  \<open>getEntrypointsForPackages\<close> returned \<open>undefined\<close>.
\<close>

definition convertEntrypoints :: "'p app \<Rightarrow> fileSystem
    \<Rightarrow> documentationEntrypoint list option \<times> effect list" where
  "convertEntrypoints a fs =
     (let packages = map (normalizePath a) (optPackages a);
          (result, log) = getEntrypointsForPackages a packages
      in case result of
           None \<Rightarrow> (None, log)
         | Some entrypoints \<Rightarrow>
             if length entrypoints = 0
             then (let (more, log') = getEntrypointsForPaths a fs (entryPoints a)
                   in (Some (entrypoints @ more), log @ log'))
             else (Some entrypoints, log))"

text \<open>
  \<open>convert\<close>: the ProjectReflection, or \<open>None\<close> for \<open>undefined\<close>, and what was
  logged and emitted on the way.
\<close>

definition convert :: "'p app \<Rightarrow> fileSystem \<Rightarrow> 'p option \<times> effect list" where
  "convert a fs =
     (let log0 = versionLog a @
            (if length (optCompilerOptions a) = 0 \<and> length (optPackages a) = 0
             then [noCompilerOptionsWarning] else []);
          (result, log1) = convertEntrypoints a fs
      in case result of
           None \<Rightarrow> (None, log0 @ log1)
         | Some entrypoints \<Rightarrow>
             (let programs = map epProgram entrypoints;
                  log2 = [Verbose (''Converting with '' @ showNat (length programs) @ '' programs'')];
                  errors = concat (map preEmitDiagnostics programs)
              in if length errors \<noteq> 0
                 then (None, log0 @ log1 @ log2 @ [Diagnostics errors])
                 else (Some (converterConvert a entrypoints),
                       log0 @ log1 @ log2 @ (if optEmit a then map Emit programs else []))))"

subsection \<open>convertAndWatch\<close>

text \<open>
  The variables the closures of \<open>convertAndWatch\<close> share: \<open>successFinished\<close>,
  \<open>currentProgram\<close>, \<open>firstStatusReport\<close> and \<open>tsconfigFile\<close>. Two more fields
  record what has happened since the watch started: the effects, and one entry for each
  run of the body of \<open>if (successFinished)\<close> in \<open>runSuccess\<close>, with the program it
  read from \<open>currentProgram\<close>, the entry points it gave to the Converter and the
  project it gave to \<open>success\<close>.
\<close>

record 'p watchState =
  successFinished :: bool
  currentProgram :: "program option"
  firstStatusReport :: bool
  tsconfigFile :: path
  effects :: "effect list"
  conversions :: "(program \<times> documentationEntrypoint list \<times> 'p) list"

text \<open>ASCII letters of \<open>toLowerCase\<close>.\<close>

definition toLowerCase :: "string \<Rightarrow> string" where
  "toLowerCase s = map (\<lambda>c. if 65 \<le> (of_char c :: nat) \<and> (of_char c :: nat) \<le> 90
                            then char_of ((of_char c :: nat) + 32) else c) s"

text \<open>
  \<open>convertAndWatch\<close> up to \<open>ts.createWatchProgram(host)\<close>: \<open>None\<close> when it returns
  before creating the watch program, otherwise the state the callbacks of the host
  start from.
\<close>

definition convertAndWatch :: "'p app \<Rightarrow> 'p watchState option \<times> effect list" where
  "convertAndWatch a =
     (let log0 = (if \<not> optPreserveWatchOutput a \<and> loggerIsConsole a then [ClearScreen] else [])
                 @ versionLog a
                 @ (if length (optCompilerOptions a) = 0 then [noCompilerOptionsWarning] else [])
      in if length (optFileNames a) = 0
         then (None, log0 @ [Error ''The provided tsconfig file looks like a solution style tsconfig, which is not supported in watch mode.''])
         else if length (optPackages a) \<noteq> 0
         then (None, log0 @ [Error (''Running with '' @ quoted ''--packages'' @ '' is not supported in watch mode.'')])
         else
           (Some \<lparr>successFinished = True, currentProgram = None, firstStatusReport = True,
                  tsconfigFile =
                    (case findConfigFile a (optTsconfig a)
                            (if endsWith (toLowerCase (optTsconfig a)) ''.json''
                             then Some (pathBasename a (optTsconfig a)) else None) of
                       Some file \<Rightarrow> file | None \<Rightarrow> ''tsconfig.json''),
                  effects = [], conversions = []\<rparr>,
            log0))"

text \<open>The loop over the input files in \<open>runSuccess\<close>, with the one current program.\<close>

fun watchEntryLoop :: "'p app \<Rightarrow> path \<Rightarrow> program \<Rightarrow> path \<Rightarrow> path list
    \<Rightarrow> documentationEntrypoint list \<times> effect list" where
  "watchEntryLoop a tsconfig program baseDir [] = ([], [])"
| "watchEntryLoop a tsconfig program baseDir (file # files) =
     (let (entrypoints, log) = watchEntryLoop a tsconfig program baseDir files
      in case getSourceFile program file of
           Some sourceFile \<Rightarrow>
             (\<lparr>displayName = getModuleName a (pathResolve a file) baseDir, epPath = file,
               epProgram = program, epSourceFile = sourceFile\<rparr> # entrypoints, log)
         | None \<Rightarrow>
             (entrypoints,
              Warn (''Unable to locate entry point: '' @ file
                    @ '' within the program defined by '' @ tsconfig) # log))"

text \<open>
  \<open>runSuccess\<close>. The file system is the one of the moment of the call.
  \<open>success(project)\<close> returns a promise; its \<open>then\<close> callback is \<open>successThen\<close>
  below.
\<close>

definition runSuccess :: "'p app \<Rightarrow> fileSystem \<Rightarrow> 'p watchState \<Rightarrow> 'p watchState" where
  "runSuccess a fs st =
     (case currentProgram st of
        None \<Rightarrow> st
      | Some program \<Rightarrow>
          if successFinished st
          then (let (inputFiles, log1) = expandInputFiles a fs (entryPoints a);
                    baseDir = getCommonDirectory a inputFiles;
                    (entrypoints, log2) =
                       watchEntryLoop a (tsconfigFile st) program baseDir (map (normalizePath a) inputFiles);
                    project = converterConvert a entrypoints
                in st\<lparr>currentProgram := None, successFinished := False,
                      effects := effects st @ [ResetErrors] @ log1 @ log2,
                      conversions := conversions st @ [(program, entrypoints, project)]\<rparr>)
          else st)"

text \<open>\<open>host.afterProgramCreate\<close>, with the program \<open>program.getProgram()\<close>.\<close>

definition afterProgramCreate :: "'p app \<Rightarrow> fileSystem \<Rightarrow> program \<Rightarrow> 'p watchState \<Rightarrow> 'p watchState" where
  "afterProgramCreate a fs program st =
     (let st' = (if length (preEmitDiagnostics program) = 0
                 then runSuccess a fs (st\<lparr>currentProgram := Some program\<rparr>)
                 else st)
      in st'\<lparr>effects := effects st' @ [OrigAfterProgramCreate program]\<rparr>)"

text \<open>
  The callback given to \<open>then\<close>. It runs when the promise of the last call of
  \<open>success\<close> resolves; one is pending exactly when \<open>successFinished\<close> is false, so
  in any other state the callback does not run.
\<close>

definition successThen :: "'p app \<Rightarrow> fileSystem \<Rightarrow> 'p watchState \<Rightarrow> 'p watchState" where
  "successThen a fs st =
     (if successFinished st then st
      else runSuccess a fs (st\<lparr>successFinished := True\<rparr>))"

text \<open>The two reporters given to \<open>ts.createWatchCompilerHost\<close>.\<close>

definition reportDiagnostic :: "diagnostic \<Rightarrow> 'p watchState \<Rightarrow> 'p watchState" where
  "reportDiagnostic d st = st\<lparr>effects := effects st @ [Diagnostic d]\<rparr>"

definition reportWatchStatus :: "'p app \<Rightarrow> string \<Rightarrow> nat option \<Rightarrow> 'p watchState \<Rightarrow> 'p watchState" where
  "reportWatchStatus a status errorCount st =
     st\<lparr>firstStatusReport := False,
        effects := effects st
          @ (if \<not> firstStatusReport st \<and> errorCount = None
                \<and> \<not> optPreserveWatchOutput a \<and> loggerIsConsole a
             then [ClearScreen] else [])
          @ [Write status]\<rparr>"

text \<open>What the watch program does to the state, one callback at a time.\<close>

datatype watchEvent =
    AfterProgramCreate fileSystem program
  | SuccessThen fileSystem
  | ReportDiagnostic diagnostic
  | ReportWatchStatus string "nat option"

fun watchStep :: "'p app \<Rightarrow> 'p watchState \<Rightarrow> watchEvent \<Rightarrow> 'p watchState" where
  "watchStep a st (AfterProgramCreate fs program) = afterProgramCreate a fs program st"
| "watchStep a st (SuccessThen fs) = successThen a fs st"
| "watchStep a st (ReportDiagnostic d) = reportDiagnostic d st"
| "watchStep a st (ReportWatchStatus status errorCount) = reportWatchStatus a status errorCount st"

definition watchRun :: "'p app \<Rightarrow> 'p watchState \<Rightarrow> watchEvent list \<Rightarrow> 'p watchState" where
  "watchRun a st events = foldl (watchStep a) st events"

text \<open>
  A watch session. \<open>ts.createWatchProgram(host)\<close> calls the callbacks of the host,
  here the list \<open>events\<close>; when \<open>convertAndWatch\<close> returns before it, there is no
  watch program and no callback runs. The result is the list of conversions and
  everything logged.
\<close>

definition convertAndWatchRun :: "'p app \<Rightarrow> watchEvent list
    \<Rightarrow> (program \<times> documentationEntrypoint list \<times> 'p) list \<times> effect list" where
  "convertAndWatchRun a events =
     (case convertAndWatch a of
        (None, log) \<Rightarrow> ([], log)
      | (Some st, log) \<Rightarrow> (conversions (watchRun a st events), log @ effects (watchRun a st events)))"

subsection \<open>A small project to run the functions on\<close>

text \<open>
  An application over a project in \<open>/p/\<close>: paths are already absolute and normalized,
  a program contains exactly its root files, and the stand-in for the Converter returns
  the display names of the entry points it is given.
\<close>

definition programOf :: "path list \<Rightarrow> program" where
  "programOf files = \<lparr>rootFileNames = files,
     sourceFiles = map (\<lambda>file. (file, SourceFile file)) files,
     resolvedProjectReferences = None, preEmitDiagnostics = []\<rparr>"

definition exampleApp :: "string list app" where
  "exampleApp = \<lparr>exclude = [], entryPoints = [], optPackages = [], optEmit = False,
     optPreserveWatchOutput = False, optTsconfig = ''tsconfig.json'',
     optCompilerOptions = [(''strict'', ''true'')], optFileNames = [''/p/a.ts''],
     optProjectReferences = [], loggerIsConsole = True, tsVersion = ''4.1.3'',
     tsVersionMajorMinor = ''4.1'', typeScriptPath = ''/ts'',
     supportedVersionMajorMinor = [''4.0'', ''4.1''],
     minimatch = (\<lambda>pattern file. pattern = ''**'' \<or> pattern = file),
     normalizePath = (\<lambda>file. file), pathResolve = (\<lambda>file. file),
     pathResolve2 = (\<lambda>dir file. dir @ ''/'' @ file), pathJoin = (\<lambda>dir file. dir @ file),
     pathRelative = (\<lambda>base file. drop (length base) file),
     pathBasename = (\<lambda>file. file),
     getCommonDirectory = (\<lambda>files. ''/p/''),
     createProgram = (\<lambda>opts. programOf (cpRootNames opts)),
     findConfigFile = (\<lambda>file name. Some ''/p/tsconfig.json''),
     getParsedCommandLineOfConfigFile = (\<lambda>file. (None, [])),
     expandPackages = (\<lambda>globs. globs),
     loadPackageManifest = (\<lambda>file. None),
     getTsEntryPointForPackage = (\<lambda>file manifest. EntryUndefined),
     converterConvert = map displayName\<rparr>"

text \<open>The files of the project: \<open>/p/a.ts\<close> and a directory \<open>/p/src\<close>.\<close>

definition exampleFs :: fileSystem where
  "exampleFs = map_of [(''/p/a.ts'', FsFile),
                       (''/p/src'', FsDir [(''b.ts'', FsFile), (''c.md'', FsFile)])]"

text \<open>
  A deeper tree, and an application whose exclude patterns match the two paths given
  as entry points below, \<open>/p/a.ts\<close> and the directory \<open>/p/src/\<close>, as well as one
  directory and one file inside \<open>/p/src\<close>. A pattern of this application matches
  the path equal to it.
\<close>

definition nestedFs :: fileSystem where
  "nestedFs = map_of
     [(''/p/a.ts'', FsFile),
      (''/p/src'', FsDir [(''b.ts'', FsFile), (''c.md'', FsFile),
                         (''sub'', FsDir [(''d.ts'', FsFile)]),
                         (''gen'', FsDir [(''e.ts'', FsFile)]),
                         (''skip.ts'', FsFile)]),
      (''/p/src/gen'', FsDir [(''e.ts'', FsFile)])]"

definition excludeSomeApp :: "string list app" where
  "excludeSomeApp = exampleApp\<lparr>exclude :=
     [''/p/a.ts'', ''/p/src/'', ''/p/src/gen/'', ''/p/src/skip.ts'']\<rparr>"

text \<open>
  A solution-style variant: the tsconfig names no files, and resolves three project
  references, of which the second did not resolve. \<open>/p/src/b.ts\<close> belongs to the
  programs of the first and of the third.
\<close>

definition solutionApp :: "string list app" where
  "solutionApp = exampleApp\<lparr>optFileNames := [],
     createProgram := (\<lambda>opts. (programOf (cpRootNames opts))
        \<lparr>resolvedProjectReferences :=
          (if cpRootNames opts = []
           then Some [Some \<lparr>clOptions = [], clFileNames = [''/p/src/b.ts''],
                            clProjectReferences = [], clErrors = []\<rparr>,
                      None,
                      Some \<lparr>clOptions = [], clFileNames = [''/p/a.ts'', ''/p/src/b.ts''],
                            clProjectReferences = [], clErrors = []\<rparr>]
           else None)\<rparr>)\<rparr>"

text \<open>A program with a semantic error, and an application whose programs all have it.\<close>

definition brokenProgram :: program where
  "brokenProgram = (programOf [''/p/a.ts''])\<lparr>preEmitDiagnostics := [''TS2304: Cannot find name x.'']\<rparr>"

definition brokenApp :: "string list app" where
  "brokenApp = exampleApp\<lparr>entryPoints := [''/p/a.ts''],
     createProgram := (\<lambda>opts. (programOf (cpRootNames opts))
        \<lparr>preEmitDiagnostics := [''TS2304: Cannot find name x.'']\<rparr>)\<rparr>"

text \<open>The application watching the entry point \<open>/p/a.ts\<close>, and the state its watch starts in.\<close>

definition watchApp :: "string list app" where
  "watchApp = exampleApp\<lparr>entryPoints := [''/p/a.ts'']\<rparr>"

definition watchStart :: "string list watchState" where
  "watchStart = \<lparr>successFinished = True, currentProgram = None, firstStatusReport = True,
     tsconfigFile = ''/p/tsconfig.json'', effects = [], conversions = []\<rparr>"



text \<open>
  The watch of \<open>watchApp\<close> after a first program was created and converted, its
  call of \<open>success\<close> still pending; and a file system without any file.
\<close>

definition pendingState :: "string list watchState" where
  "pendingState = afterProgramCreate watchApp exampleFs (programOf [''/p/a.ts'']) watchStart"

definition emptyFs :: fileSystem where
  "emptyFs = (\<lambda>file. None)"

subsection \<open>Words of the properties\<close>

text \<open>The two warnings about entry points, and the message for a solution-style tsconfig.\<close>

definition notExistWarning :: "path \<Rightarrow> effect" where
  "notExistWarning file = Warn (''Provided entry point '' @ file @ '' does not exist and will not be included in the docs.'')"

definition unableWarning :: "path \<Rightarrow> effect" where
  "unableWarning file = Warn (''Unable to locate entry point: '' @ file)"

definition solutionStyleLog :: "'p app \<Rightarrow> effect list" where
  "solutionStyleLog a =
     (if length (rootFileNames (rootProgram a)) = 0
      then [Verbose ''tsconfig appears to be a solution style tsconfig - creating programs for references'']
      else [])"

text \<open>A file is located when one of the programs has it.\<close>

definition located :: "program list \<Rightarrow> path \<Rightarrow> bool" where
  "located programs file = list_ex (\<lambda>program. getSourceFile program file \<noteq> None) programs"

text \<open>
  What holds of the watch state at every moment: the stored program and the programs of
  all conversions so far have no pre-emit diagnostics.
\<close>

definition watchInv :: "'p watchState \<Rightarrow> bool" where
  "watchInv st = ((case currentProgram st of None \<Rightarrow> True | Some p \<Rightarrow> preEmitDiagnostics p = [])
     \<and> list_all (\<lambda>c. preEmitDiagnostics (fst c) = []) (conversions st))"


text \<open>
  The entry points of a program in watch mode, computed from nothing but the
  application, the file system and the program: the input files are expanded, their
  common directory is taken, and each file the program has becomes an entry point.
\<close>

definition watchEntrypoints :: "'p app \<Rightarrow> fileSystem \<Rightarrow> program \<Rightarrow> documentationEntrypoint list" where
  "watchEntrypoints a fs program =
     (let inputFiles = fst (expandInputFiles a fs (entryPoints a));
          baseDir = getCommonDirectory a inputFiles
      in map (\<lambda>file. \<lparr>displayName = getModuleName a (pathResolve a file) baseDir, epPath = file,
                       epProgram = program, epSourceFile = the (getSourceFile program file)\<rparr>)
             (filter (\<lambda>file. getSourceFile program file \<noteq> None)
                (map (normalizePath a) inputFiles)))"

text \<open>The record of a conversion of a program on a file system.\<close>

definition conversionOf :: "'p app \<Rightarrow> fileSystem \<Rightarrow> program
    \<Rightarrow> program \<times> documentationEntrypoint list \<times> 'p" where
  "conversionOf a fs program =
     (program, watchEntrypoints a fs program, converterConvert a (watchEntrypoints a fs program))"

text \<open>
  The program in \<open>currentProgram\<close> after the programs \<open>created\<close> arrived one after
  the other: the last of them that has no pre-emit diagnostics, or, when there is none,
  the program stored before.
\<close>

definition latestProgram :: "program option \<Rightarrow> program list \<Rightarrow> program option" where
  "latestProgram stored created =
     (case filter (\<lambda>program. preEmitDiagnostics program = []) created of
        [] \<Rightarrow> stored
      | program # programs \<Rightarrow> Some (last (program # programs)))"

text \<open>The file system a callback runs on.\<close>

fun eventFileSystem :: "watchEvent \<Rightarrow> fileSystem option" where
  "eventFileSystem (AfterProgramCreate fs program) = Some fs"
| "eventFileSystem (SuccessThen fs) = Some fs"
| "eventFileSystem (ReportDiagnostic d) = None"
| "eventFileSystem (ReportWatchStatus status errorCount) = None"

section \<open>Properties\<close>

lemmas example_simps = exampleApp_def exampleFs_def programOf_def supportedFileRegex_def
  optionSet_def tsRegex_def tjsRegex_def endsWith_def isExcluded_def withTrailingSlash_def
  programsForPaths_def rootProgram_def located_def getSourceFile_def
  notExistWarning_def unableWarning_def solutionStyleLog_def

subsection \<open>What expandInputFiles returns\<close>

lemma expandInputFiles_fst:
  "fst (expandInputFiles a fs inputFiles) =
     concat (map (\<lambda>file. case fs (pathResolve a file) of
                            None \<Rightarrow> [] | Some node \<Rightarrow> add a (pathResolve a file) True node) inputFiles)"
  by (induction inputFiles) (auto simp: Let_def split: prod.splits option.splits)

lemma expandInputFiles_snd:
  "snd (expandInputFiles a fs inputFiles) =
     map notExistWarning (filter (\<lambda>file. fs (pathResolve a file) = None) inputFiles)"
  by (induction inputFiles) (auto simp: Let_def notExistWarning_def split: prod.splits option.splits)

lemma expandInputFiles_files:
  "file \<in> set inputFiles \<Longrightarrow> fs (pathResolve a file) = Some node
   \<Longrightarrow> set (add a (pathResolve a file) True node) \<subseteq> set (fst (expandInputFiles a fs inputFiles))"
  by (force simp: expandInputFiles_fst)

text \<open>
  C8. The exclude patterns are not applied to a path of the input list, only to what
  is found below it. The result of \<open>expandInputFiles\<close> is, path by path, what \<open>add\<close>
  pushes for the path as an entry point. For an entry point the exclude patterns are
  not consulted: a file is pushed exactly when it is a supported source file, and a
  directory pushes what its entries push, each visited as a discovered path. A
  discovered path pushes nothing when an exclude pattern matches it, and otherwise
  what it would push as an entry point. So a supported file of the input list is in the
  result, and so is every supported file of a directory of the input list that no
  pattern matches, whatever the patterns say of the file or directory given.
\<close>

theorem expandInputFiles_exclude_only_discovered:
  "fst (expandInputFiles a fs inputFiles)
     = concat (map (\<lambda>entry. case fs (pathResolve a entry) of
                              None \<Rightarrow> []
                            | Some node \<Rightarrow> add a (pathResolve a entry) True node) inputFiles)
   \<and> add a path True FsFile = (if supportedFileRegex a path then [normalizePath a path] else [])
   \<and> add a path True (FsDir entries)
       = concat (map (\<lambda>(name, node). add a (pathJoin a (withTrailingSlash path) name) False node) entries)
   \<and> add a path True FsNoStat = []
   \<and> add a path False found
       = (if isExcluded a (normalizePath a (case found of FsDir _ \<Rightarrow> withTrailingSlash path | _ \<Rightarrow> path))
          then [] else add a path True found)
   \<and> (entry \<in> set inputFiles \<and> fs (pathResolve a entry) = Some FsFile
        \<and> supportedFileRegex a (pathResolve a entry)
      \<longrightarrow> normalizePath a (pathResolve a entry) \<in> set (fst (expandInputFiles a fs inputFiles)))
   \<and> (dir \<in> set inputFiles \<and> fs (pathResolve a dir) = Some (FsDir listing)
        \<and> (name, FsFile) \<in> set listing
        \<and> \<not> isExcluded a (normalizePath a (pathJoin a (withTrailingSlash (pathResolve a dir)) name))
        \<and> supportedFileRegex a (pathJoin a (withTrailingSlash (pathResolve a dir)) name)
      \<longrightarrow> normalizePath a (pathJoin a (withTrailingSlash (pathResolve a dir)) name)
            \<in> set (fst (expandInputFiles a fs inputFiles)))"
proof (intro conjI impI)
  show "fst (expandInputFiles a fs inputFiles)
     = concat (map (\<lambda>entry. case fs (pathResolve a entry) of
                              None \<Rightarrow> []
                            | Some node \<Rightarrow> add a (pathResolve a entry) True node) inputFiles)"
    by (rule expandInputFiles_fst)
  show "add a path True FsFile = (if supportedFileRegex a path then [normalizePath a path] else [])"
    by simp
  show "add a path True (FsDir entries)
       = concat (map (\<lambda>(name, node). add a (pathJoin a (withTrailingSlash path) name) False node) entries)"
    by (simp add: Let_def)
  show "add a path True FsNoStat = []"
    by simp
  show "add a path False found
       = (if isExcluded a (normalizePath a (case found of FsDir _ \<Rightarrow> withTrailingSlash path | _ \<Rightarrow> path))
          then [] else add a path True found)"
    by (cases found) (simp_all add: Let_def)
next
  assume h: "entry \<in> set inputFiles \<and> fs (pathResolve a entry) = Some FsFile
      \<and> supportedFileRegex a (pathResolve a entry)"
  then have "set (add a (pathResolve a entry) True FsFile) \<subseteq> set (fst (expandInputFiles a fs inputFiles))"
    by (intro expandInputFiles_files) simp_all
  with h show "normalizePath a (pathResolve a entry) \<in> set (fst (expandInputFiles a fs inputFiles))"
    by simp
next
  let ?found = "pathJoin a (withTrailingSlash (pathResolve a dir)) name"
  assume h: "dir \<in> set inputFiles \<and> fs (pathResolve a dir) = Some (FsDir listing)
        \<and> (name, FsFile) \<in> set listing
        \<and> \<not> isExcluded a (normalizePath a ?found)
        \<and> supportedFileRegex a ?found"
  then have "set (add a (pathResolve a dir) True (FsDir listing)) \<subseteq> set (fst (expandInputFiles a fs inputFiles))"
    by (intro expandInputFiles_files) simp_all
  moreover from h have "set (add a ?found False FsFile) \<subseteq> set (add a (pathResolve a dir) True (FsDir listing))"
    by (force simp: Let_def)
  moreover from h have "normalizePath a ?found \<in> set (add a ?found False FsFile)"
    by simp
  ultimately show "normalizePath a ?found \<in> set (fst (expandInputFiles a fs inputFiles))"
    by blast
qed

text \<open>
  Patterns match both paths given, \<open>/p/a.ts\<close> and \<open>/p/src/\<close>; the file is kept and the
  directory is expanded all the same: \<open>b.ts\<close> and \<open>sub/d.ts\<close> are found in it, while
  \<open>skip.ts\<close> and the directory \<open>gen\<close>, matched by patterns and found on the way, are
  left out. Given as an entry point itself, \<open>/p/src/gen\<close> is expanded.
\<close>

theorem expandInputFiles_exclude_only_discovered_witness:
  "isExcluded excludeSomeApp ''/p/a.ts'' \<and> isExcluded excludeSomeApp ''/p/src/''
   \<and> fst (expandInputFiles excludeSomeApp nestedFs [''/p/a.ts'', ''/p/src''])
       = [''/p/a.ts'', ''/p/src/b.ts'', ''/p/src/sub/d.ts'']
   \<and> add excludeSomeApp ''/p/src/skip.ts'' False FsFile = []
   \<and> add excludeSomeApp ''/p/src/gen'' False (FsDir [(''e.ts'', FsFile)]) = []
   \<and> fst (expandInputFiles excludeSomeApp nestedFs [''/p/src/gen'']) = [''/p/src/gen/e.ts'']
   \<and> ''/p/a.ts'' \<in> set (fst (expandInputFiles excludeSomeApp nestedFs [''/p/a.ts'', ''/p/src'']))
   \<and> ''/p/src/b.ts'' \<in> set (fst (expandInputFiles excludeSomeApp nestedFs [''/p/a.ts'', ''/p/src'']))"
proof -
  note defs = excludeSomeApp_def nestedFs_def example_simps
  have e: "isExcluded excludeSomeApp ''/p/a.ts'' \<and> isExcluded excludeSomeApp ''/p/src/''"
    by (simp add: defs)
  have h1: "''/p/a.ts'' \<in> set [''/p/a.ts'', ''/p/src'']
      \<and> nestedFs (pathResolve excludeSomeApp ''/p/a.ts'') = Some FsFile
      \<and> supportedFileRegex excludeSomeApp (pathResolve excludeSomeApp ''/p/a.ts'')"
    by (simp add: defs)
  have p: "pathJoin excludeSomeApp (withTrailingSlash (pathResolve excludeSomeApp ''/p/src'')) ''b.ts''
      = ''/p/src/b.ts''"
    by (simp add: defs)
  have h2: "''/p/src'' \<in> set [''/p/a.ts'', ''/p/src'']
      \<and> nestedFs (pathResolve excludeSomeApp ''/p/src'')
          = Some (FsDir [(''b.ts'', FsFile), (''c.md'', FsFile),
                         (''sub'', FsDir [(''d.ts'', FsFile)]),
                         (''gen'', FsDir [(''e.ts'', FsFile)]),
                         (''skip.ts'', FsFile)])
      \<and> (''b.ts'', FsFile) \<in> set [(''b.ts'', FsFile), (''c.md'', FsFile),
                         (''sub'', FsDir [(''d.ts'', FsFile)]),
                         (''gen'', FsDir [(''e.ts'', FsFile)]),
                         (''skip.ts'', FsFile)]
      \<and> \<not> isExcluded excludeSomeApp (normalizePath excludeSomeApp ''/p/src/b.ts'')
      \<and> supportedFileRegex excludeSomeApp ''/p/src/b.ts''"
    by (simp add: defs)
  have n: "normalizePath excludeSomeApp ''/p/src/b.ts'' = ''/p/src/b.ts''
      \<and> normalizePath excludeSomeApp (pathResolve excludeSomeApp ''/p/a.ts'') = ''/p/a.ts''"
    by (simp add: defs)
  from expandInputFiles_exclude_only_discovered
         [where a = excludeSomeApp and fs = nestedFs and inputFiles = "[''/p/a.ts'', ''/p/src'']"
            and entry = "''/p/a.ts''" and dir = "''/p/src''" and name = "''b.ts''"
            and listing = "[(''b.ts'', FsFile), (''c.md'', FsFile),
                         (''sub'', FsDir [(''d.ts'', FsFile)]),
                         (''gen'', FsDir [(''e.ts'', FsFile)]),
                         (''skip.ts'', FsFile)]"]
    h1 h2 p n
  have members: "''/p/a.ts'' \<in> set (fst (expandInputFiles excludeSomeApp nestedFs [''/p/a.ts'', ''/p/src'']))
     \<and> ''/p/src/b.ts'' \<in> set (fst (expandInputFiles excludeSomeApp nestedFs [''/p/a.ts'', ''/p/src'']))"
    by simp
  have skip: "isExcluded excludeSomeApp (normalizePath excludeSomeApp
        (case FsFile of FsDir _ \<Rightarrow> withTrailingSlash ''/p/src/skip.ts'' | _ \<Rightarrow> ''/p/src/skip.ts''))"
    by (simp add: defs)
  from expandInputFiles_exclude_only_discovered
         [where a = excludeSomeApp and path = "''/p/src/skip.ts''" and found = FsFile] skip
  have dropped: "add excludeSomeApp ''/p/src/skip.ts'' False FsFile = []"
    by simp
  have gen: "isExcluded excludeSomeApp (normalizePath excludeSomeApp
        (case FsDir [(''e.ts'', FsFile)] of FsDir _ \<Rightarrow> withTrailingSlash ''/p/src/gen''
         | _ \<Rightarrow> ''/p/src/gen''))"
    by (simp add: defs)
  from expandInputFiles_exclude_only_discovered
         [where a = excludeSomeApp and path = "''/p/src/gen''" and found = "FsDir [(''e.ts'', FsFile)]"] gen
  have pruned: "add excludeSomeApp ''/p/src/gen'' False (FsDir [(''e.ts'', FsFile)]) = []"
    by simp
  have all: "fst (expandInputFiles excludeSomeApp nestedFs [''/p/a.ts'', ''/p/src''])
       = [''/p/a.ts'', ''/p/src/b.ts'', ''/p/src/sub/d.ts'']"
    by (simp add: defs)
  have direct: "fst (expandInputFiles excludeSomeApp nestedFs [''/p/src/gen'']) = [''/p/src/gen/e.ts'']"
    by (simp add: defs)
  from e all dropped pruned direct members show ?thesis by blast
qed

subsection \<open>What getEntrypointsForPaths returns\<close>

lemma findProgram_None: "findProgram programs f = None \<longleftrightarrow> \<not> located programs f"
  by (induction programs) (auto simp: located_def split: option.splits)

lemma findProgram_Some:
  "findProgram programs f = Some (p, sf) \<Longrightarrow>
     \<exists>pre post. programs = pre @ p # post \<and> (\<forall>q\<in>set pre. getSourceFile q f = None)
        \<and> getSourceFile p f = Some sf"
proof (induction programs)
  case Nil
  then show ?case by simp
next
  case (Cons q qs)
  show ?case
  proof (cases "getSourceFile q f")
    case None
    with Cons.prems have "findProgram qs f = Some (p, sf)" by simp
    from Cons.IH[OF this] obtain pre post where
      "qs = pre @ p # post" "\<forall>q\<in>set pre. getSourceFile q f = None" "getSourceFile p f = Some sf"
      by blast
    with None have "q # qs = (q # pre) @ p # post \<and> (\<forall>r\<in>set (q # pre). getSourceFile r f = None)
        \<and> getSourceFile p f = Some sf" by simp
    then show ?thesis by blast
  next
    case (Some s)
    with Cons.prems have "q = p" "s = sf" by simp_all
    with Some have "q # qs = [] @ p # qs \<and> (\<forall>r\<in>set []. getSourceFile r f = None)
        \<and> getSourceFile p f = Some sf" by simp
    then show ?thesis by blast
  qed
qed

lemma located_iff: "located programs f \<longleftrightarrow> findProgram programs f \<noteq> None"
  by (simp add: findProgram_None)

lemma entryLoop_paths:
  "map epPath (fst (entryLoop a programs baseDir files)) = filter (located programs) files"
  by (induction files) (auto simp: located_iff split: prod.splits option.splits)

lemma entryLoop_log:
  "snd (entryLoop a programs baseDir files) = map unableWarning (filter (\<lambda>f. \<not> located programs f) files)"
  by (induction files) (auto simp: located_iff unableWarning_def split: prod.splits option.splits)

lemma entryLoop_first:
  "ep \<in> set (fst (entryLoop a programs baseDir files)) \<Longrightarrow>
     findProgram programs (epPath ep) = Some (epProgram ep, epSourceFile ep)"
  by (induction files) (auto split: prod.splits option.splits)

lemma getEntrypointsForPaths_fst:
  "fst (getEntrypointsForPaths a fs paths) =
     fst (entryLoop a (programsForPaths a) (getCommonDirectory a (fst (expandInputFiles a fs paths)))
            (map (normalizePath a) (fst (expandInputFiles a fs paths))))"
  by (simp add: getEntrypointsForPaths_def Let_def split: prod.splits)

lemma getEntrypointsForPaths_snd:
  "snd (getEntrypointsForPaths a fs paths) =
     (if length (rootFileNames (rootProgram a)) = 0
      then [Verbose ''tsconfig appears to be a solution style tsconfig - creating programs for references'']
      else [])
     @ snd (expandInputFiles a fs paths)
     @ snd (entryLoop a (programsForPaths a) (getCommonDirectory a (fst (expandInputFiles a fs paths)))
            (map (normalizePath a) (fst (expandInputFiles a fs paths))))"
  by (simp add: getEntrypointsForPaths_def Let_def split: prod.splits)

lemma expandInputFiles_filter:
  "fst (expandInputFiles a fs (filter (\<lambda>entry. fs (pathResolve a entry) \<noteq> None) paths))
     = fst (expandInputFiles a fs paths)"
  unfolding expandInputFiles_fst by (induction paths) auto


text \<open>
  C3. An entry-point path that does not exist is skipped with one warning, and the other
  paths are expanded as before: the files are those of the paths that exist, in order,
  and leaving the missing paths out of the list gives the same entry points. Of the
  files found, those that a program has become entry points, in order; every other one
  is skipped with one warning. Nothing else is logged but the message for a
  solution-style tsconfig.
\<close>

theorem getEntrypointsForPaths_skips_unlocatable:
  "fst (expandInputFiles a fs paths)
     = concat (map (\<lambda>entry. case fs (pathResolve a entry) of
                              None \<Rightarrow> []
                            | Some node \<Rightarrow> add a (pathResolve a entry) True node) paths)
   \<and> map epPath (fst (getEntrypointsForPaths a fs paths))
     = filter (located (programsForPaths a))
         (map (normalizePath a) (fst (expandInputFiles a fs paths)))
   \<and> snd (getEntrypointsForPaths a fs paths)
     = solutionStyleLog a
       @ map notExistWarning (filter (\<lambda>entry. fs (pathResolve a entry) = None) paths)
       @ map unableWarning (filter (\<lambda>found. \<not> located (programsForPaths a) found)
                             (map (normalizePath a) (fst (expandInputFiles a fs paths))))
   \<and> fst (getEntrypointsForPaths a fs (filter (\<lambda>entry. fs (pathResolve a entry) \<noteq> None) paths))
     = fst (getEntrypointsForPaths a fs paths)"
proof (intro conjI)
  show "fst (expandInputFiles a fs paths)
     = concat (map (\<lambda>entry. case fs (pathResolve a entry) of
                              None \<Rightarrow> []
                            | Some node \<Rightarrow> add a (pathResolve a entry) True node) paths)"
    by (rule expandInputFiles_fst)
  show "map epPath (fst (getEntrypointsForPaths a fs paths))
     = filter (located (programsForPaths a))
         (map (normalizePath a) (fst (expandInputFiles a fs paths)))"
    by (simp only: getEntrypointsForPaths_fst entryLoop_paths)
  show "snd (getEntrypointsForPaths a fs paths)
     = solutionStyleLog a
       @ map notExistWarning (filter (\<lambda>entry. fs (pathResolve a entry) = None) paths)
       @ map unableWarning (filter (\<lambda>found. \<not> located (programsForPaths a) found)
                             (map (normalizePath a) (fst (expandInputFiles a fs paths))))"
    by (simp only: getEntrypointsForPaths_snd entryLoop_log expandInputFiles_snd solutionStyleLog_def)
  show "fst (getEntrypointsForPaths a fs (filter (\<lambda>entry. fs (pathResolve a entry) \<noteq> None) paths))
     = fst (getEntrypointsForPaths a fs paths)"
    by (simp only: getEntrypointsForPaths_fst expandInputFiles_filter)
qed

text \<open>
  Two of these four paths do not exist, and \<open>b.ts\<close>, found in \<open>/p/src\<close>, is in no
  program: \<open>/p/a.ts\<close>, the third path, is the entry point returned.
\<close>

theorem getEntrypointsForPaths_skips_unlocatable_witness:
  "map epPath (fst (getEntrypointsForPaths exampleApp exampleFs
      [''/p/zz.ts'', ''/p/src'', ''/p/a.ts'', ''/p/c.ts''])) = [''/p/a.ts'']
   \<and> snd (getEntrypointsForPaths exampleApp exampleFs
      [''/p/zz.ts'', ''/p/src'', ''/p/a.ts'', ''/p/c.ts''])
     = [notExistWarning ''/p/zz.ts'', notExistWarning ''/p/c.ts'', unableWarning ''/p/src/b.ts'']"
proof -
  have files: "fst (expandInputFiles exampleApp exampleFs [''/p/zz.ts'', ''/p/src'', ''/p/a.ts'', ''/p/c.ts''])
      = [''/p/src/b.ts'', ''/p/a.ts'']"
    by (simp add: example_simps)
  from getEntrypointsForPaths_skips_unlocatable
         [of exampleApp exampleFs "[''/p/zz.ts'', ''/p/src'', ''/p/a.ts'', ''/p/c.ts'']"]
  show ?thesis
    unfolding files by (simp add: example_simps)
qed


text \<open>
  C9. The programs are the root program followed, for a solution-style tsconfig, by the
  programs of the resolved project references. The entry points returned are, in
  order, one for each file found that some program has; the program of each is the
  first in that list to have the file; and each file found that no program has is
  the subject of exactly one warning.
\<close>

theorem getEntrypointsForPaths_first_program:
  "programsForPaths a
     = rootProgram a #
       (if rootFileNames (rootProgram a) = []
        then referencePrograms a (case resolvedProjectReferences (rootProgram a) of
                                    None \<Rightarrow> [] | Some refs \<Rightarrow> refs)
        else [])
   \<and> map epPath (fst (getEntrypointsForPaths a fs paths))
     = filter (located (programsForPaths a))
         (map (normalizePath a) (fst (expandInputFiles a fs paths)))
   \<and> (\<forall>ep \<in> set (fst (getEntrypointsForPaths a fs paths)).
        \<exists>before after.
          programsForPaths a = before @ epProgram ep # after
          \<and> (\<forall>earlier \<in> set before. getSourceFile earlier (epPath ep) = None)
          \<and> getSourceFile (epProgram ep) (epPath ep) = Some (epSourceFile ep))
   \<and> filter (\<lambda>e. \<exists>found. e = unableWarning found) (snd (getEntrypointsForPaths a fs paths))
     = map unableWarning (filter (\<lambda>found. \<not> located (programsForPaths a) found)
                           (map (normalizePath a) (fst (expandInputFiles a fs paths))))"
proof (intro conjI ballI)
  show "programsForPaths a
     = rootProgram a #
       (if rootFileNames (rootProgram a) = []
        then referencePrograms a (case resolvedProjectReferences (rootProgram a) of
                                    None \<Rightarrow> [] | Some refs \<Rightarrow> refs)
        else [])"
    by (simp add: programsForPaths_def)
  show "map epPath (fst (getEntrypointsForPaths a fs paths))
     = filter (located (programsForPaths a))
         (map (normalizePath a) (fst (expandInputFiles a fs paths)))"
    by (simp only: getEntrypointsForPaths_fst entryLoop_paths)
next
  fix ep assume "ep \<in> set (fst (getEntrypointsForPaths a fs paths))"
  then have "findProgram (programsForPaths a) (epPath ep) = Some (epProgram ep, epSourceFile ep)"
    unfolding getEntrypointsForPaths_fst by (rule entryLoop_first)
  then show "\<exists>before after.
          programsForPaths a = before @ epProgram ep # after
          \<and> (\<forall>earlier \<in> set before. getSourceFile earlier (epPath ep) = None)
          \<and> getSourceFile (epProgram ep) (epPath ep) = Some (epSourceFile ep)"
    by (rule findProgram_Some)
next
  have w: "filter (\<lambda>e. \<exists>found. e = unableWarning found) (map unableWarning xs) = map unableWarning xs" for xs
    by (induction xs) auto
  have n: "filter (\<lambda>e. \<exists>found. e = unableWarning found) (map notExistWarning xs) = []" for xs
    by (induction xs) (auto simp: unableWarning_def notExistWarning_def)
  have s: "filter (\<lambda>e. \<exists>found. e = unableWarning found) (solutionStyleLog a) = []"
    by (auto simp: unableWarning_def solutionStyleLog_def)
  show "filter (\<lambda>e. \<exists>found. e = unableWarning found) (snd (getEntrypointsForPaths a fs paths))
     = map unableWarning (filter (\<lambda>found. \<not> located (programsForPaths a) found)
                           (map (normalizePath a) (fst (expandInputFiles a fs paths))))"
    unfolding getEntrypointsForPaths_snd entryLoop_log expandInputFiles_snd
    using w n s by (simp add: solutionStyleLog_def)
qed



text \<open>
  In the solution-style project, \<open>b.ts\<close> is in two programs, and its entry point has
  the first of them, the program of the first reference; the root program, before it,
  does not have the file.
\<close>

theorem getEntrypointsForPaths_first_program_witness:
  "fst (getEntrypointsForPaths solutionApp exampleFs [''/p/src''])
     = [\<lparr>displayName = ''src/b'', epPath = ''/p/src/b.ts'',
         epProgram = programOf [''/p/src/b.ts''], epSourceFile = SourceFile ''/p/src/b.ts''\<rparr>]
   \<and> getSourceFile (programOf [''/p/a.ts'', ''/p/src/b.ts'']) ''/p/src/b.ts'' \<noteq> None
   \<and> programsForPaths solutionApp
       = [rootProgram solutionApp, programOf [''/p/src/b.ts''], programOf [''/p/a.ts'', ''/p/src/b.ts'']]
   \<and> (\<exists>before after.
          programsForPaths solutionApp = before @ programOf [''/p/src/b.ts''] # after
          \<and> (\<forall>earlier \<in> set before. getSourceFile earlier ''/p/src/b.ts'' = None)
          \<and> getSourceFile (programOf [''/p/src/b.ts'']) ''/p/src/b.ts'' = Some (SourceFile ''/p/src/b.ts''))"
proof -
  have files: "fst (expandInputFiles solutionApp exampleFs [''/p/src'']) = [''/p/src/b.ts'']"
    by (simp add: solutionApp_def example_simps)
  have programs: "programsForPaths solutionApp
       = [rootProgram solutionApp, programOf [''/p/src/b.ts''], programOf [''/p/a.ts'', ''/p/src/b.ts'']]"
    by (simp add: solutionApp_def exampleApp_def programsForPaths_def rootProgram_def programOf_def)
  have eps: "fst (getEntrypointsForPaths solutionApp exampleFs [''/p/src''])
     = [\<lparr>displayName = ''src/b'', epPath = ''/p/src/b.ts'',
         epProgram = programOf [''/p/src/b.ts''], epSourceFile = SourceFile ''/p/src/b.ts''\<rparr>]"
    unfolding getEntrypointsForPaths_fst files programs
    by (simp add: solutionApp_def exampleApp_def rootProgram_def programOf_def getSourceFile_def
        getModuleName_def replaceModuleSuffix_def matchedExtension_def dropSuffix_def tjsRegex_def tsRegex_def endsWith_def)
  have other: "getSourceFile (programOf [''/p/a.ts'', ''/p/src/b.ts'']) ''/p/src/b.ts'' \<noteq> None"
    by (simp add: programOf_def getSourceFile_def)
  from getEntrypointsForPaths_first_program [of solutionApp exampleFs "[''/p/src'']"]
  have "\<forall>ep \<in> set (fst (getEntrypointsForPaths solutionApp exampleFs [''/p/src''])).
        \<exists>before after.
          programsForPaths solutionApp = before @ epProgram ep # after
          \<and> (\<forall>earlier \<in> set before. getSourceFile earlier (epPath ep) = None)
          \<and> getSourceFile (epProgram ep) (epPath ep) = Some (epSourceFile ep)"
    by blast
  then have "\<exists>before after.
          programsForPaths solutionApp = before @ programOf [''/p/src/b.ts''] # after
          \<and> (\<forall>earlier \<in> set before. getSourceFile earlier ''/p/src/b.ts'' = None)
          \<and> getSourceFile (programOf [''/p/src/b.ts'']) ''/p/src/b.ts'' = Some (SourceFile ''/p/src/b.ts'')"
    unfolding eps by simp
  with eps other programs show ?thesis by blast
qed


subsection \<open>Pre-emit diagnostics\<close>

lemma runSuccess_inv: "watchInv st \<Longrightarrow> watchInv (runSuccess a fs st)"
  by (auto simp: watchInv_def runSuccess_def Let_def split: option.splits prod.splits)

lemma afterProgramCreate_inv: "watchInv st \<Longrightarrow> watchInv (afterProgramCreate a fs p st)"
proof -
  assume inv: "watchInv st"
  have eff: "watchInv (s\<lparr>effects := e\<rparr>) = watchInv s" for s :: "'a watchState" and e
    by (simp add: watchInv_def)
  show ?thesis
  proof (cases "preEmitDiagnostics p = []")
    case True
    from inv have "watchInv (st\<lparr>currentProgram := Some p\<rparr>)"
      using True by (simp add: watchInv_def)
    then have "watchInv (runSuccess a fs (st\<lparr>currentProgram := Some p\<rparr>))"
      by (rule runSuccess_inv)
    with True show ?thesis by (simp add: afterProgramCreate_def Let_def eff)
  next
    case False
    with inv show ?thesis by (simp add: afterProgramCreate_def Let_def eff)
  qed
qed

lemma successThen_inv: "watchInv st \<Longrightarrow> watchInv (successThen a fs st)"
proof -
  assume inv: "watchInv st"
  then have "watchInv (st\<lparr>successFinished := True\<rparr>)" by (simp add: watchInv_def)
  then have "watchInv (runSuccess a fs (st\<lparr>successFinished := True\<rparr>))" by (rule runSuccess_inv)
  with inv show ?thesis by (simp add: successThen_def)
qed

lemma watchStep_inv: "watchInv st \<Longrightarrow> watchInv (watchStep a st e)"
  by (cases e) (simp_all add: afterProgramCreate_inv successThen_inv reportDiagnostic_def
      reportWatchStatus_def watchInv_def[of "st\<lparr>effects := x\<rparr>" for x] watchInv_def[of "st\<lparr>firstStatusReport := y, effects := x\<rparr>" for x y] watchInv_def[of st])

lemma watchRun_inv: "watchInv st \<Longrightarrow> watchInv (watchRun a st events)"
  unfolding watchRun_def by (induction events arbitrary: st) (simp_all add: watchStep_inv)

lemma convertAndWatch_inv: "fst (convertAndWatch a) = Some st \<Longrightarrow> watchInv st"
  by (auto simp: convertAndWatch_def Let_def watchInv_def split: if_splits)

lemma convert_errors:
  assumes "fst (convertEntrypoints a fs) = Some entrypoints"
    and "concat (map (\<lambda>e. preEmitDiagnostics (epProgram e)) entrypoints) \<noteq> []"
  shows "fst (convert a fs) = None"
    and "last (snd (convert a fs)) = Diagnostics (concat (map (\<lambda>e. preEmitDiagnostics (epProgram e)) entrypoints))"
  using assms by (auto simp: convert_def Let_def comp_def split: prod.splits option.splits)

text \<open>The two example applications, run.\<close>

lemma brokenApp_entrypoints:
  "fst (convertEntrypoints brokenApp exampleFs)
     = Some [\<lparr>displayName = ''a'', epPath = ''/p/a.ts'', epProgram = brokenProgram,
              epSourceFile = SourceFile ''/p/a.ts''\<rparr>]"
  by (simp add: convertEntrypoints_def getEntrypointsForPackages_def getEntrypointsForPaths_def
      brokenApp_def brokenProgram_def example_simps Let_def getModuleName_def
      replaceModuleSuffix_def matchedExtension_def dropSuffix_def)

lemma watchApp_start: "convertAndWatch watchApp = (Some watchStart, [ClearScreen, Verbose ''Using TypeScript 4.1.3 from /ts''])"
  by (simp add: convertAndWatch_def watchApp_def exampleApp_def watchStart_def versionLog_def Let_def
      toLowerCase_def endsWith_def)

lemma watchApp_run:
  "fst (convertAndWatchRun watchApp
      [AfterProgramCreate exampleFs brokenProgram, AfterProgramCreate exampleFs (programOf [''/p/a.ts''])])
   = [(programOf [''/p/a.ts''],
       [\<lparr>displayName = ''a'', epPath = ''/p/a.ts'', epProgram = programOf [''/p/a.ts''],
         epSourceFile = SourceFile ''/p/a.ts''\<rparr>], [''a''])]"
  unfolding convertAndWatchRun_def watchApp_start
  by (simp add: watchRun_def afterProgramCreate_def
      runSuccess_def watchStart_def brokenProgram_def Let_def getModuleName_def
      replaceModuleSuffix_def matchedExtension_def dropSuffix_def watchApp_def example_simps)

text \<open>
  C1. When the programs of the entry points have a pre-emit diagnostic, \<open>convert\<close>
  returns \<open>undefined\<close>, and the last thing it does is to log the diagnostics. In watch
  mode, \<open>afterProgramCreate\<close> for a program with a diagnostic neither converts nor
  stores the program, and in a whole watch session no conversion is ever made of a
  program with a diagnostic.
\<close>

theorem preEmitDiagnostics_abort_conversion:
  "(fst (convertEntrypoints a fs) = Some entrypoints
      \<and> concat (map (\<lambda>e. preEmitDiagnostics (epProgram e)) entrypoints) \<noteq> []
    \<longrightarrow> fst (convert a fs) = None
       \<and> last (snd (convert a fs))
           = Diagnostics (concat (map (\<lambda>e. preEmitDiagnostics (epProgram e)) entrypoints)))
   \<and> (preEmitDiagnostics program \<noteq> []
    \<longrightarrow> conversions (afterProgramCreate a fs program st) = conversions st
       \<and> currentProgram (afterProgramCreate a fs program st) = currentProgram st
       \<and> successFinished (afterProgramCreate a fs program st) = successFinished st)
   \<and> (\<forall>c \<in> set (fst (convertAndWatchRun a events)). preEmitDiagnostics (fst c) = [])"
proof (intro conjI impI ballI)
  assume h: "fst (convertEntrypoints a fs) = Some entrypoints
      \<and> concat (map (\<lambda>e. preEmitDiagnostics (epProgram e)) entrypoints) \<noteq> []"
  then show "fst (convert a fs) = None" using convert_errors(1)[of a fs entrypoints] by blast
  from h show "last (snd (convert a fs))
           = Diagnostics (concat (map (\<lambda>e. preEmitDiagnostics (epProgram e)) entrypoints))"
    using convert_errors(2)[of a fs entrypoints] by blast
next
  assume h: "preEmitDiagnostics program \<noteq> []"
  then show "conversions (afterProgramCreate a fs program st) = conversions st"
    by (simp add: afterProgramCreate_def)
  from h show "currentProgram (afterProgramCreate a fs program st) = currentProgram st"
    by (simp add: afterProgramCreate_def)
  from h show "successFinished (afterProgramCreate a fs program st) = successFinished st"
    by (simp add: afterProgramCreate_def)
next
  fix c assume c: "c \<in> set (fst (convertAndWatchRun a events))"
  show "preEmitDiagnostics (fst c) = []"
  proof (cases "fst (convertAndWatch a)")
    case None
    with c show ?thesis
      by (simp add: convertAndWatchRun_def split: prod.splits)
  next
    case (Some st)
    then have "watchInv (watchRun a st events)"
      by (intro watchRun_inv convertAndWatch_inv)
    moreover from c Some have "c \<in> set (conversions (watchRun a st events))"
      by (simp add: convertAndWatchRun_def split: prod.splits)
    ultimately show ?thesis
      by (simp add: watchInv_def list_all_iff)
  qed
qed

text \<open>
  An application whose program does not know the name \<open>x\<close>: \<open>convert\<close> returns
  nothing; in a watch session the broken program is passed over and the next one, without
  errors, is converted.
\<close>

theorem preEmitDiagnostics_abort_conversion_witness:
  "fst (convert brokenApp exampleFs) = None
   \<and> last (snd (convert brokenApp exampleFs)) = Diagnostics [''TS2304: Cannot find name x.'']
   \<and> conversions (afterProgramCreate watchApp exampleFs brokenProgram watchStart) = []
   \<and> currentProgram (afterProgramCreate watchApp exampleFs brokenProgram watchStart) = None
   \<and> map fst (fst (convertAndWatchRun watchApp
        [AfterProgramCreate exampleFs brokenProgram, AfterProgramCreate exampleFs (programOf [''/p/a.ts''])]))
      = [programOf [''/p/a.ts'']]
   \<and> preEmitDiagnostics (programOf [''/p/a.ts'']) = []"
proof -
  have d: "preEmitDiagnostics brokenProgram = [''TS2304: Cannot find name x.'']"
    by (simp add: brokenProgram_def)
  from preEmitDiagnostics_abort_conversion
         [where a = brokenApp and fs = exampleFs and program = brokenProgram
            and entrypoints = "[\<lparr>displayName = ''a'', epPath = ''/p/a.ts'', epProgram = brokenProgram,
              epSourceFile = SourceFile ''/p/a.ts''\<rparr>]"]
    brokenApp_entrypoints d
  have one: "fst (convert brokenApp exampleFs) = None
     \<and> last (snd (convert brokenApp exampleFs)) = Diagnostics [''TS2304: Cannot find name x.'']"
    by simp
  from preEmitDiagnostics_abort_conversion
         [where a = watchApp and fs = exampleFs and program = brokenProgram and st = watchStart
            and events = "[AfterProgramCreate exampleFs brokenProgram,
                           AfterProgramCreate exampleFs (programOf [''/p/a.ts''])]"]
    d watchApp_run
  have two: "conversions (afterProgramCreate watchApp exampleFs brokenProgram watchStart) = []
     \<and> currentProgram (afterProgramCreate watchApp exampleFs brokenProgram watchStart) = None
     \<and> preEmitDiagnostics (programOf [''/p/a.ts'']) = []"
    by (simp add: watchStart_def)
  from one two watchApp_run show ?thesis by simp
qed

subsection \<open>Unsupported ways to watch\<close>

text \<open>
  C10. With a tsconfig that names no files, or with packages, \<open>convertAndWatch\<close> logs an
  error as its last action and returns before creating the watch program: whatever
  happens later, the session has no conversion and logs nothing more.
\<close>

theorem convertAndWatch_unsupported:
  "(length (optFileNames a) = 0
    \<longrightarrow> fst (convertAndWatch a) = None
       \<and> last (snd (convertAndWatch a)) = Error ''The provided tsconfig file looks like a solution style tsconfig, which is not supported in watch mode.'')
   \<and> (length (optFileNames a) \<noteq> 0 \<and> length (optPackages a) \<noteq> 0
    \<longrightarrow> fst (convertAndWatch a) = None
       \<and> last (snd (convertAndWatch a))
           = Error (''Running with '' @ quoted ''--packages'' @ '' is not supported in watch mode.''))
   \<and> (length (optFileNames a) = 0 \<or> length (optPackages a) \<noteq> 0
    \<longrightarrow> convertAndWatchRun a events = ([], snd (convertAndWatch a)))"
  by (simp add: convertAndWatch_def convertAndWatchRun_def Let_def)

text \<open>The solution-style application, and an application given a package.\<close>

theorem convertAndWatch_unsupported_witness:
  "length (optFileNames solutionApp) = 0
   \<and> fst (convertAndWatch solutionApp) = None
   \<and> fst (convertAndWatchRun solutionApp [AfterProgramCreate exampleFs (programOf [''/p/a.ts''])]) = []
   \<and> length (optPackages (exampleApp\<lparr>optPackages := [''packages/core'']\<rparr>)) \<noteq> 0
   \<and> fst (convertAndWatch (exampleApp\<lparr>optPackages := [''packages/core'']\<rparr>)) = None
   \<and> last (snd (convertAndWatch (exampleApp\<lparr>optPackages := [''packages/core'']\<rparr>)))
       = Error (''Running with '' @ quoted ''--packages'' @ '' is not supported in watch mode.'')
   \<and> fst (convertAndWatchRun (exampleApp\<lparr>optPackages := [''packages/core'']\<rparr>)
        [AfterProgramCreate exampleFs (programOf [''/p/a.ts''])]) = []"
proof -
  have s: "length (optFileNames solutionApp) = 0"
    by (simp add: solutionApp_def)
  have p: "length (optFileNames (exampleApp\<lparr>optPackages := [''packages/core'']\<rparr>)) \<noteq> 0
      \<and> length (optPackages (exampleApp\<lparr>optPackages := [''packages/core'']\<rparr>)) \<noteq> 0"
    by (simp add: exampleApp_def)
  from convertAndWatch_unsupported
         [of solutionApp "[AfterProgramCreate exampleFs (programOf [''/p/a.ts''])]"] s
  have one: "fst (convertAndWatch solutionApp) = None
     \<and> fst (convertAndWatchRun solutionApp [AfterProgramCreate exampleFs (programOf [''/p/a.ts''])]) = []"
    by simp
  from convertAndWatch_unsupported
         [of "exampleApp\<lparr>optPackages := [''packages/core'']\<rparr>"
             "[AfterProgramCreate exampleFs (programOf [''/p/a.ts''])]"] p
  have two: "fst (convertAndWatch (exampleApp\<lparr>optPackages := [''packages/core'']\<rparr>)) = None
     \<and> last (snd (convertAndWatch (exampleApp\<lparr>optPackages := [''packages/core'']\<rparr>)))
         = Error (''Running with '' @ quoted ''--packages'' @ '' is not supported in watch mode.'')
     \<and> fst (convertAndWatchRun (exampleApp\<lparr>optPackages := [''packages/core'']\<rparr>)
          [AfterProgramCreate exampleFs (programOf [''/p/a.ts''])]) = []"
    by simp
  from s p one two show ?thesis by simp
qed

subsection \<open>Entry points that cannot be located, in a single run\<close>














subsection \<open>Rebuilds in watch mode\<close>

lemma watchEntryLoop_fst:
  "fst (watchEntryLoop a tsconfig program baseDir files)
     = map (\<lambda>file. \<lparr>displayName = getModuleName a (pathResolve a file) baseDir, epPath = file,
                      epProgram = program, epSourceFile = the (getSourceFile program file)\<rparr>)
           (filter (\<lambda>file. getSourceFile program file \<noteq> None) files)"
  by (induction files) (auto split: prod.splits option.splits)

lemma runSuccess_ready:
  assumes "currentProgram st = Some program" and "successFinished st"
  shows "conversions (runSuccess a fs st) = conversions st @ [conversionOf a fs program]"
    and "currentProgram (runSuccess a fs st) = None"
    and "\<not> successFinished (runSuccess a fs st)"
proof -
  have "watchEntrypoints a fs program
      = fst (watchEntryLoop a (tsconfigFile st) program
               (getCommonDirectory a (fst (expandInputFiles a fs (entryPoints a))))
               (map (normalizePath a) (fst (expandInputFiles a fs (entryPoints a)))))"
    by (simp add: watchEntrypoints_def Let_def watchEntryLoop_fst)
  with assms show "conversions (runSuccess a fs st) = conversions st @ [conversionOf a fs program]"
    by (simp add: runSuccess_def conversionOf_def Let_def split: prod.splits)
  from assms show "currentProgram (runSuccess a fs st) = None"
    by (simp add: runSuccess_def Let_def split: prod.splits)
  from assms show "\<not> successFinished (runSuccess a fs st)"
    by (simp add: runSuccess_def Let_def split: prod.splits)
qed

lemma runSuccess_idle:
  "currentProgram st = None \<or> \<not> successFinished st \<Longrightarrow> runSuccess a fs st = st"
  by (auto simp: runSuccess_def split: option.splits)

lemma afterProgramCreate_ready:
  assumes "successFinished st" and "preEmitDiagnostics program = []"
  shows "conversions (afterProgramCreate a fs program st) = conversions st @ [conversionOf a fs program]"
    and "currentProgram (afterProgramCreate a fs program st) = None"
    and "\<not> successFinished (afterProgramCreate a fs program st)"
  using assms runSuccess_ready[of "st\<lparr>currentProgram := Some program\<rparr>" program a fs]
  by (simp_all add: afterProgramCreate_def Let_def)

lemma afterProgramCreate_pending:
  assumes "\<not> successFinished st"
  shows "afterProgramCreate a fs program st
     = st\<lparr>currentProgram := (if preEmitDiagnostics program = [] then Some program else currentProgram st),
          effects := effects st @ [OrigAfterProgramCreate program]\<rparr>"
  using assms runSuccess_idle[of "st\<lparr>currentProgram := Some program\<rparr>" a fs]
  by (simp add: afterProgramCreate_def Let_def)

lemma successThen_pending:
  assumes "\<not> successFinished st"
  shows "conversions (successThen a fs st)
     = conversions st @ (case currentProgram st of None \<Rightarrow> [] | Some program \<Rightarrow> [conversionOf a fs program])"
    and "currentProgram (successThen a fs st) = None"
    and "successFinished (successThen a fs st) = (currentProgram st = None)"
proof -
  show "conversions (successThen a fs st)
     = conversions st @ (case currentProgram st of None \<Rightarrow> [] | Some program \<Rightarrow> [conversionOf a fs program])"
  proof (cases "currentProgram st")
    case None
    with assms runSuccess_idle[of "st\<lparr>successFinished := True\<rparr>" a fs]
    show ?thesis by (simp add: successThen_def)
  next
    case (Some program)
    with assms runSuccess_ready(1)[of "st\<lparr>successFinished := True\<rparr>" program a fs]
    show ?thesis by (simp add: successThen_def)
  qed
  show "currentProgram (successThen a fs st) = None"
  proof (cases "currentProgram st")
    case None
    with assms runSuccess_idle[of "st\<lparr>successFinished := True\<rparr>" a fs]
    show ?thesis by (simp add: successThen_def)
  next
    case (Some program)
    with assms runSuccess_ready(2)[of "st\<lparr>successFinished := True\<rparr>" program a fs]
    show ?thesis by (simp add: successThen_def)
  qed
  show "successFinished (successThen a fs st) = (currentProgram st = None)"
  proof (cases "currentProgram st")
    case None
    with assms runSuccess_idle[of "st\<lparr>successFinished := True\<rparr>" a fs]
    show ?thesis by (simp add: successThen_def)
  next
    case (Some program)
    with assms runSuccess_ready(3)[of "st\<lparr>successFinished := True\<rparr>" program a fs]
    show ?thesis by (simp add: successThen_def)
  qed
qed

lemma latestProgram_Nil: "latestProgram stored [] = stored"
  by (simp add: latestProgram_def)

lemma latestProgram_Cons:
  "latestProgram stored (program # created)
     = latestProgram (if preEmitDiagnostics program = [] then Some program else stored) created"
  by (auto simp: latestProgram_def split: list.splits)

lemma watchRun_pending:
  "\<not> successFinished st \<Longrightarrow>
   watchRun a st (map (\<lambda>(fs, program). AfterProgramCreate fs program) arrivals)
     = st\<lparr>currentProgram := latestProgram (currentProgram st) (map snd arrivals),
          effects := effects st @ map (\<lambda>(fs, program). OrigAfterProgramCreate program) arrivals\<rparr>"
proof (induction arrivals arbitrary: st)
  case Nil
  then show ?case by (simp add: watchRun_def latestProgram_Nil)
next
  case (Cons x xs)
  obtain fs program where x: "x = (fs, program)" by (cases x)
  let ?st = "afterProgramCreate a fs program st"
  from Cons.prems have st': "?st = st\<lparr>currentProgram := (if preEmitDiagnostics program = [] then Some program else currentProgram st),
          effects := effects st @ [OrigAfterProgramCreate program]\<rparr>"
    by (rule afterProgramCreate_pending)
  with Cons.prems have "\<not> successFinished ?st" by simp
  from Cons.IH[OF this] have "watchRun a ?st (map (\<lambda>(fs, program). AfterProgramCreate fs program) xs)
     = ?st\<lparr>currentProgram := latestProgram (currentProgram ?st) (map snd xs),
          effects := effects ?st @ map (\<lambda>(fs, program). OrigAfterProgramCreate program) xs\<rparr>" .
  then show ?case
    unfolding st' by (simp add: x watchRun_def latestProgram_Cons afterProgramCreate_pending[OF Cons.prems])
qed

lemma latestProgram_last:
  "created \<noteq> [] \<Longrightarrow> list_all (\<lambda>program. preEmitDiagnostics program = []) created
   \<Longrightarrow> latestProgram stored created = Some (last created)"
  by (cases created) (auto simp: latestProgram_def list_all_iff filter_id_conv split: list.splits)

lemma watchApp_entrypoints_exampleFs:
  "watchEntrypoints watchApp exampleFs (programOf (''/p/a.ts'' # files))
     = [\<lparr>displayName = ''a'', epPath = ''/p/a.ts'', epProgram = programOf (''/p/a.ts'' # files),
         epSourceFile = SourceFile ''/p/a.ts''\<rparr>]"
  by (simp add: watchEntrypoints_def watchApp_def example_simps Let_def getModuleName_def
      replaceModuleSuffix_def matchedExtension_def dropSuffix_def)

lemma watchApp_entrypoints_emptyFs: "watchEntrypoints watchApp emptyFs program = []"
  by (simp add: watchEntrypoints_def watchApp_def exampleApp_def emptyFs_def Let_def)

lemma watchApp_convert: "converterConvert watchApp = map displayName"
  by (simp add: watchApp_def exampleApp_def)

lemma pendingState_fields:
  "\<not> successFinished pendingState" "currentProgram pendingState = None"
  "conversions pendingState = [conversionOf watchApp exampleFs (programOf [''/p/a.ts''])]"
proof -
  have r: "successFinished watchStart" "preEmitDiagnostics (programOf [''/p/a.ts'']) = []"
    by (simp_all add: watchStart_def programOf_def)
  from afterProgramCreate_ready(3)[OF r] show "\<not> successFinished pendingState"
    by (simp add: pendingState_def)
  from afterProgramCreate_ready(2)[OF r] show "currentProgram pendingState = None"
    by (simp add: pendingState_def)
  from afterProgramCreate_ready(1)[OF r]
  show "conversions pendingState = [conversionOf watchApp exampleFs (programOf [''/p/a.ts''])]"
    by (simp add: pendingState_def watchStart_def)
qed

text \<open>
  C5. While a call of \<open>success\<close> is pending, a program that arrives starts no
  conversion and leaves the call pending: it takes the place of the stored program (a
  program with pre-emit diagnostics, which C1 keeps out, changes nothing). So after any
  number of arrivals the conversions are those made before, and when the pending call
  completes at most one conversion is added, of the latest program stored; arrivals
  before it are never converted. When all arrivals are free of diagnostics the latest
  is the last of them.
\<close>

theorem watch_rebuild_not_preempted:
  "(\<not> successFinished st
    \<longrightarrow> conversions (afterProgramCreate a fs program st) = conversions st
       \<and> \<not> successFinished (afterProgramCreate a fs program st)
       \<and> currentProgram (afterProgramCreate a fs program st)
           = (if preEmitDiagnostics program = [] then Some program else currentProgram st)
       \<and> conversions (watchRun a st (map (\<lambda>(fs, program). AfterProgramCreate fs program) arrivals))
           = conversions st
       \<and> conversions (successThen a fs'
             (watchRun a st (map (\<lambda>(fs, program). AfterProgramCreate fs program) arrivals)))
           = conversions st
             @ (case latestProgram (currentProgram st) (map snd arrivals) of
                  None \<Rightarrow> []
                | Some latest \<Rightarrow> [conversionOf a fs' latest]))
   \<and> (created \<noteq> [] \<and> list_all (\<lambda>program. preEmitDiagnostics program = []) created
    \<longrightarrow> latestProgram stored created = Some (last created))"
proof (intro conjI impI)
  assume p: "\<not> successFinished st"
  let ?run = "watchRun a st (map (\<lambda>(fs, program). AfterProgramCreate fs program) arrivals)"
  from p show "conversions (afterProgramCreate a fs program st) = conversions st"
    by (simp add: afterProgramCreate_pending)
  from p show "\<not> successFinished (afterProgramCreate a fs program st)"
    by (simp add: afterProgramCreate_pending)
  from p show "currentProgram (afterProgramCreate a fs program st)
           = (if preEmitDiagnostics program = [] then Some program else currentProgram st)"
    by (simp add: afterProgramCreate_pending)
  from p have run: "?run = st\<lparr>currentProgram := latestProgram (currentProgram st) (map snd arrivals),
          effects := effects st @ map (\<lambda>(fs, program). OrigAfterProgramCreate program) arrivals\<rparr>"
    by (rule watchRun_pending)
  then show "conversions ?run = conversions st" by simp
  from run p have "\<not> successFinished ?run" by simp
  then have "conversions (successThen a fs' ?run)
     = conversions ?run @ (case currentProgram ?run of None \<Rightarrow> [] | Some program \<Rightarrow> [conversionOf a fs' program])"
    by (rule successThen_pending(1))
  then show "conversions (successThen a fs' ?run)
           = conversions st
             @ (case latestProgram (currentProgram st) (map snd arrivals) of
                  None \<Rightarrow> []
                | Some latest \<Rightarrow> [conversionOf a fs' latest])"
    unfolding run by simp
next
  assume "created \<noteq> [] \<and> list_all (\<lambda>program. preEmitDiagnostics program = []) created"
  then show "latestProgram stored created = Some (last created)"
    by (simp add: latestProgram_last)
qed

text \<open>
  Two programs arrive while the first conversion is pending. When it completes, the
  second of them is converted and the first is not.
\<close>

theorem watch_rebuild_not_preempted_witness:
  "\<not> successFinished pendingState
   \<and> map fst (conversions pendingState) = [programOf [''/p/a.ts'']]
   \<and> conversions (watchRun watchApp pendingState
        [AfterProgramCreate exampleFs (programOf [''/p/a.ts'', ''/p/src/b.ts'']),
         AfterProgramCreate exampleFs (programOf [''/p/src/b.ts''])]) = conversions pendingState
   \<and> map fst (conversions (successThen watchApp exampleFs (watchRun watchApp pendingState
        [AfterProgramCreate exampleFs (programOf [''/p/a.ts'', ''/p/src/b.ts'']),
         AfterProgramCreate exampleFs (programOf [''/p/src/b.ts''])])))
      = [programOf [''/p/a.ts''], programOf [''/p/src/b.ts'']]
   \<and> latestProgram None [programOf [''/p/a.ts'', ''/p/src/b.ts''], programOf [''/p/src/b.ts'']]
      = Some (programOf [''/p/src/b.ts''])"
proof -
  have ok: "[programOf [''/p/a.ts'', ''/p/src/b.ts''], programOf [''/p/src/b.ts'']] \<noteq> []
     \<and> list_all (\<lambda>program. preEmitDiagnostics program = [])
          [programOf [''/p/a.ts'', ''/p/src/b.ts''], programOf [''/p/src/b.ts'']]"
    by (simp add: programOf_def)
  from watch_rebuild_not_preempted
         [where st = pendingState and a = watchApp and fs' = exampleFs
            and arrivals = "[(exampleFs, programOf [''/p/a.ts'', ''/p/src/b.ts'']),
                             (exampleFs, programOf [''/p/src/b.ts''])]"
            and created = "[programOf [''/p/a.ts'', ''/p/src/b.ts''], programOf [''/p/src/b.ts'']]"
            and stored = None]
    pendingState_fields ok
  show ?thesis by (simp add: conversionOf_def)
qed

lemma watchStep_conversions:
  "conversions (watchStep a st e) = conversions st
   \<or> (\<exists>fs program. eventFileSystem e = Some fs
         \<and> conversions (watchStep a st e) = conversions st @ [conversionOf a fs program])"
proof (cases e)
  case (AfterProgramCreate fs program)
  show ?thesis
  proof (cases "successFinished st \<and> preEmitDiagnostics program = []")
    case True
    then have "conversions (afterProgramCreate a fs program st) = conversions st @ [conversionOf a fs program]"
      by (intro afterProgramCreate_ready(1)) simp_all
    with AfterProgramCreate show ?thesis by auto
  next
    case False
    then have "conversions (afterProgramCreate a fs program st) = conversions st"
      by (auto simp: afterProgramCreate_pending) (simp add: afterProgramCreate_def)
    with AfterProgramCreate show ?thesis by simp
  qed
next
  case (SuccessThen fs)
  show ?thesis
  proof (cases "successFinished st")
    case True
    with SuccessThen show ?thesis by (simp add: successThen_def)
  next
    case False
    then have "conversions (successThen a fs st)
     = conversions st @ (case currentProgram st of None \<Rightarrow> [] | Some program \<Rightarrow> [conversionOf a fs program])"
      by (rule successThen_pending(1))
    with SuccessThen show ?thesis by (cases "currentProgram st") auto
  qed
next
  case (ReportDiagnostic d)
  then show ?thesis by (simp add: reportDiagnostic_def)
next
  case (ReportWatchStatus status errorCount)
  then show ?thesis by (simp add: reportWatchStatus_def)
qed

lemma watchRun_conversions:
  "c \<in> set (conversions (watchRun a st events)) \<Longrightarrow>
     c \<in> set (conversions st)
     \<or> (\<exists>fs. Some fs \<in> eventFileSystem ` set events \<and> c = conversionOf a fs (fst c))"
proof (induction events arbitrary: st)
  case Nil
  then show ?case by (simp add: watchRun_def)
next
  case (Cons e es)
  from Cons.prems have "c \<in> set (conversions (watchRun a (watchStep a st e) es))"
    by (simp add: watchRun_def)
  from Cons.IH[OF this] consider
    (old) "c \<in> set (conversions (watchStep a st e))"
    | (new) "\<exists>fs. Some fs \<in> eventFileSystem ` set es \<and> c = conversionOf a fs (fst c)"
    by blast
  then show ?case
  proof cases
    case old
    from watchStep_conversions[of a st e] show ?thesis
    proof
      assume "conversions (watchStep a st e) = conversions st"
      with old show ?thesis by simp
    next
      assume "\<exists>fs program. eventFileSystem e = Some fs
         \<and> conversions (watchStep a st e) = conversions st @ [conversionOf a fs program]"
      then obtain fs program where e: "eventFileSystem e = Some fs"
        and c: "conversions (watchStep a st e) = conversions st @ [conversionOf a fs program]"
        by blast
      from old c have "c \<in> set (conversions st) \<or> c = conversionOf a fs program" by auto
      then show ?thesis
      proof
        assume "c \<in> set (conversions st)"
        then show ?thesis by simp
      next
        assume "c = conversionOf a fs program"
        then have "c = conversionOf a fs (fst c)" by (simp add: conversionOf_def)
        moreover from e have "Some fs \<in> eventFileSystem ` set (e # es)" by force
        ultimately show ?thesis by blast
      qed
    qed
  next
    case new
    then show ?thesis by auto
  qed
qed

text \<open>
  C6. Each conversion in watch mode starts from nothing: whether it is started by a new
  program or by the end of a pending call, it expands the input files on the file
  system of that moment, takes their common directory, builds the entry points of the
  program and gives them to the Converter, whose result is the project handed to
  \<open>success\<close>. No state of the watch enters it: every conversion of a session is the
  one computed from the file system of one of its callbacks and the program converted.
\<close>

theorem watch_rebuild_from_scratch:
  "(successFinished st \<and> preEmitDiagnostics program = []
    \<longrightarrow> conversions (afterProgramCreate a fs program st)
         = conversions st @ [(program, watchEntrypoints a fs program,
                              converterConvert a (watchEntrypoints a fs program))])
   \<and> (\<not> successFinished st \<and> currentProgram st = Some program
    \<longrightarrow> conversions (successThen a fs st)
         = conversions st @ [(program, watchEntrypoints a fs program,
                              converterConvert a (watchEntrypoints a fs program))])
   \<and> (\<forall>c \<in> set (fst (convertAndWatchRun a events)).
        \<exists>fs. Some fs \<in> eventFileSystem ` set events
          \<and> c = (fst c, watchEntrypoints a fs (fst c),
                   converterConvert a (watchEntrypoints a fs (fst c))))"
proof (intro conjI impI ballI)
  assume "successFinished st \<and> preEmitDiagnostics program = []"
  then show "conversions (afterProgramCreate a fs program st)
         = conversions st @ [(program, watchEntrypoints a fs program,
                              converterConvert a (watchEntrypoints a fs program))]"
    using afterProgramCreate_ready(1)[of st program a fs] by (simp add: conversionOf_def)
next
  assume "\<not> successFinished st \<and> currentProgram st = Some program"
  then show "conversions (successThen a fs st)
         = conversions st @ [(program, watchEntrypoints a fs program,
                              converterConvert a (watchEntrypoints a fs program))]"
    using successThen_pending(1)[of st a fs] by (simp add: conversionOf_def)
next
  fix c assume c: "c \<in> set (fst (convertAndWatchRun a events))"
  show "\<exists>fs. Some fs \<in> eventFileSystem ` set events
          \<and> c = (fst c, watchEntrypoints a fs (fst c),
                   converterConvert a (watchEntrypoints a fs (fst c)))"
  proof (cases "convertAndWatch a")
    case (Pair start log)
    show ?thesis
    proof (cases start)
      case None
      with Pair c show ?thesis by (simp add: convertAndWatchRun_def)
    next
      case (Some st0)
      with Pair c have "c \<in> set (conversions (watchRun a st0 events))"
        by (simp add: convertAndWatchRun_def)
      moreover from Pair Some have "conversions st0 = []"
        by (auto simp: convertAndWatch_def Let_def split: if_splits)
      ultimately show ?thesis
        using watchRun_conversions[of c a st0 events] by (simp add: conversionOf_def)
    qed
  qed
qed

text \<open>
  A conversion on the example files documents \<open>a\<close>; a later one, after the file is
  gone, documents nothing, although the same program is converted.
\<close>

theorem watch_rebuild_from_scratch_witness:
  "successFinished watchStart \<and> preEmitDiagnostics (programOf [''/p/a.ts'']) = []
   \<and> map (\<lambda>c. snd (snd c)) (conversions (afterProgramCreate watchApp exampleFs (programOf [''/p/a.ts'']) watchStart))
       = [[''a'']]
   \<and> \<not> successFinished (pendingState\<lparr>currentProgram := Some (programOf [''/p/a.ts''])\<rparr>)
   \<and> map (\<lambda>c. snd (snd c)) (conversions (successThen watchApp emptyFs
         (pendingState\<lparr>currentProgram := Some (programOf [''/p/a.ts''])\<rparr>)))
       = [[''a''], []]
   \<and> (\<exists>fs. Some fs \<in> eventFileSystem ` set [AfterProgramCreate exampleFs (programOf [''/p/a.ts''])]
         \<and> conversionOf watchApp exampleFs (programOf [''/p/a.ts''])
            = (programOf [''/p/a.ts''], watchEntrypoints watchApp fs (programOf [''/p/a.ts'']),
               converterConvert watchApp (watchEntrypoints watchApp fs (programOf [''/p/a.ts'']))))"
proof -
  have r: "successFinished watchStart \<and> preEmitDiagnostics (programOf [''/p/a.ts'']) = []"
    by (simp add: watchStart_def programOf_def)
  with watch_rebuild_from_scratch
         [where st = watchStart and program = "programOf [''/p/a.ts'']" and a = watchApp and fs = exampleFs]
  have one: "conversions (afterProgramCreate watchApp exampleFs (programOf [''/p/a.ts'']) watchStart)
      = conversions watchStart @ [(programOf [''/p/a.ts''],
           watchEntrypoints watchApp exampleFs (programOf [''/p/a.ts'']),
           converterConvert watchApp (watchEntrypoints watchApp exampleFs (programOf [''/p/a.ts''])))]"
    by blast
  have p: "\<not> successFinished (pendingState\<lparr>currentProgram := Some (programOf [''/p/a.ts''])\<rparr>)
      \<and> currentProgram (pendingState\<lparr>currentProgram := Some (programOf [''/p/a.ts''])\<rparr>)
          = Some (programOf [''/p/a.ts''])"
    by (simp add: pendingState_fields)
  with watch_rebuild_from_scratch
         [where st = "pendingState\<lparr>currentProgram := Some (programOf [''/p/a.ts''])\<rparr>"
            and program = "programOf [''/p/a.ts'']" and a = watchApp and fs = emptyFs]
  have two: "conversions (successThen watchApp emptyFs
         (pendingState\<lparr>currentProgram := Some (programOf [''/p/a.ts''])\<rparr>))
      = conversions (pendingState\<lparr>currentProgram := Some (programOf [''/p/a.ts''])\<rparr>)
        @ [(programOf [''/p/a.ts''], watchEntrypoints watchApp emptyFs (programOf [''/p/a.ts'']),
            converterConvert watchApp (watchEntrypoints watchApp emptyFs (programOf [''/p/a.ts''])))]"
    by blast
  have run: "fst (convertAndWatchRun watchApp [AfterProgramCreate exampleFs (programOf [''/p/a.ts''])])
      = [conversionOf watchApp exampleFs (programOf [''/p/a.ts''])]"
    unfolding convertAndWatchRun_def watchApp_start
    by (simp add: watchRun_def pendingState_fields(3)[unfolded pendingState_def])
  from watch_rebuild_from_scratch
         [where a = watchApp and events = "[AfterProgramCreate exampleFs (programOf [''/p/a.ts''])]"]
  have three: "\<exists>fs. Some fs \<in> eventFileSystem ` set [AfterProgramCreate exampleFs (programOf [''/p/a.ts''])]
         \<and> conversionOf watchApp exampleFs (programOf [''/p/a.ts''])
            = (programOf [''/p/a.ts''], watchEntrypoints watchApp fs (programOf [''/p/a.ts'']),
               converterConvert watchApp (watchEntrypoints watchApp fs (programOf [''/p/a.ts''])))"
    unfolding run by (simp add: conversionOf_def)
  from r one p two three show ?thesis
    by (simp add: watchApp_entrypoints_exampleFs watchApp_entrypoints_emptyFs watchApp_convert
        pendingState_fields conversionOf_def watchStart_def)
qed

end
